theory Spec2Isabelle
  imports Main "HOL-Library.Sublist"
begin

section \<open>The release pipeline of create-python-modern\<close>

text \<open>
  The repository holds two revisions of the release script: \<^verbatim>\<open>src/scripts/release.js\<close>
  and \<^verbatim>\<open>src/unnamed/part_002\<close> (the same class \<^verbatim>\<open>ReleaseManager\<close>, with the
  comments CORREGIDO, MEJORADO, SIMPLIFICADO on the methods it changes). Both are
  embedded. A definition without suffix follows \<^verbatim>\<open>src/scripts/release.js\<close>; a
  definition with the suffix \<open>_p2\<close> follows \<^verbatim>\<open>src/unnamed/part_002\<close>. Methods
  whose text is the same in both files (\<^verbatim>\<open>updateChangelog\<close>,
  \<^verbatim>\<open>generateReport\<close>, \<^verbatim>\<open>log\<close>, \<^verbatim>\<open>warn\<close>, \<^verbatim>\<open>error\<close>) are embedded once.

  JavaScript strings are modelled as \<^typ>\<open>string\<close>. The message texts of the source
  contain accented letters and emoji; they are written here without the accents and
  without the emoji, and the time stamp that \<^verbatim>\<open>log\<close> puts before each line
  is left out. No claim depends on those characters.
\<close>

subsection \<open>String operations of the JavaScript runtime\<close>

definition nl :: char where
  "nl = CHR 0x0A"

text \<open>\<^verbatim>\<open>s.split(c)\<close> for a one-character separator: never the empty array.\<close>

fun split :: "char \<Rightarrow> string \<Rightarrow> string list" where
  "split sep [] = [[]]"
| "split sep (c # cs) =
     (if c = sep then [] # split sep cs
      else (case split sep cs of [] \<Rightarrow> [[c]] | l # ls \<Rightarrow> (c # l) # ls))"

text \<open>\<^verbatim>\<open>xs.join(sep)\<close>.\<close>

fun join :: "string \<Rightarrow> string list \<Rightarrow> string" where
  "join sep [] = []"
| "join sep [l] = l"
| "join sep (l # m # ls) = l @ sep @ join sep (m # ls)"

fun startsWith :: "string \<Rightarrow> string \<Rightarrow> bool" where
  "startsWith s [] = True"
| "startsWith [] (p # ps) = False"
| "startsWith (c # cs) (p # ps) = (c = p \<and> startsWith cs ps)"

text \<open>\<^verbatim>\<open>s.includes(p)\<close>: \<open>p\<close> occurs somewhere in \<open>s\<close>.\<close>

fun includesStr :: "string \<Rightarrow> string \<Rightarrow> bool" where
  "includesStr [] p = startsWith [] p"
| "includesStr (c # cs) p = (startsWith (c # cs) p \<or> includesStr cs p)"

text \<open>The white space \<^verbatim>\<open>trim\<close> removes, among the characters below 256.\<close>

definition isSpace :: "char \<Rightarrow> bool" where
  "isSpace c = (c = CHR 0x20 \<or> c = CHR 0x09 \<or> c = CHR 0x0A \<or> c = CHR 0x0B
     \<or> c = CHR 0x0C \<or> c = CHR 0x0D \<or> c = CHR 0xA0)"

definition trim :: "string \<Rightarrow> string" where
  "trim s = rev (dropWhile isSpace (rev (dropWhile isSpace s)))"

text \<open>\<^verbatim>\<open>s.replace(/"/g, '')\<close>.\<close>

definition stripQuotes :: "string \<Rightarrow> string" where
  "stripQuotes s = filter (\<lambda>c. c \<noteq> CHR 0x22) s"

text \<open>A template placeholder \<^verbatim>\<open>${x}\<close> for a value that may be \<^verbatim>\<open>null\<close>.\<close>

definition str :: "string option \<Rightarrow> string" where
  "str v = (case v of None \<Rightarrow> ''null'' | Some s \<Rightarrow> s)"

subsection \<open>Versions\<close>

definition isDigit :: "char \<Rightarrow> bool" where
  "isDigit c = (c = CHR ''0'' \<or> c = CHR ''1'' \<or> c = CHR ''2'' \<or> c = CHR ''3''
     \<or> c = CHR ''4'' \<or> c = CHR ''5'' \<or> c = CHR ''6'' \<or> c = CHR ''7''
     \<or> c = CHR ''8'' \<or> c = CHR ''9'')"

definition digits :: "string \<Rightarrow> bool" where
  "digits s = (s \<noteq> [] \<and> list_all isDigit s)"

text \<open>\<^verbatim>\<open>/^\d+\.\d+\.\d+$/.test(v)\<close>: three non-empty runs of digits between dots.\<close>

definition versionRegex :: "string \<Rightarrow> bool" where
  "versionRegex v =
     (case split (CHR ''.'') v of
        [a, b, c] \<Rightarrow> digits a \<and> digits b \<and> digits c
      | _ \<Rightarrow> False)"

definition parseNat :: "string \<Rightarrow> nat" where
  "parseNat s = foldl (\<lambda>n c. 10 * n + (of_char c - 48)) 0 s"

fun showNat :: "nat \<Rightarrow> string" where
  "showNat n =
     (if n < 10 then [char_of (48 + n)]
      else showNat (n div 10) @ [char_of (48 + n mod 10)])"

declare showNat.simps [simp del]

definition showVersion :: "nat \<Rightarrow> nat \<Rightarrow> nat \<Rightarrow> string" where
  "showVersion a b c = showNat a @ ''.'' @ showNat b @ ''.'' @ showNat c"

subsection \<open>External commands\<close>

text \<open>
  Every \<^verbatim>\<open>execSync\<close> call of the script runs one of these commands. A command is
  recorded in the world's \<open>trace\<close> when it is run, whether it succeeds or not.
\<close>

datatype cmd =
    GitRevParseBranch
  | GitStatus
  | NpmPkgFix
  | NpmCi
  | NpmTest
  | NpmRunBuild
  | NpmPkgGetVersion
  | GitTagList string
  | NpmVersion string
  | GitDescribe
  | GitLog string
  | GitDiffCached
  | GitAddAll
  | GitCommit string
  | GitCommitNoVerify string
  | GitTagAnnotated string string
  | GitRevList
  | GitPush string
  | GitPushTags
  | GitRevParseHead
  | NpmPublish
  | NpmPublishGitHub
  | NpmViewVersion string
  | NpmView string

text \<open>
  What a run cannot change: which commands fail and with which message, the outputs of
  the queries whose answer the pipeline does not influence, the files and variables it
  only reads, and the clock.
\<close>

record env =
  fails :: "cmd \<Rightarrow> bool"
  failMessage :: "cmd \<Rightarrow> string"
  viewVersionFails :: "nat \<Rightarrow> bool"
  branchOut :: string
  pkgFixModifies :: bool
  pkgFixOther :: "string \<Rightarrow> string option"
  packageName :: string
  buildScript :: bool
  npmrcFile :: "string option"
  npmToken :: "string option"
  gitLogOut :: string
  stagedOut :: string
  headSha :: "string list \<Rightarrow> string"
  viewVersionOut :: string
  viewOut :: string
  npmVersionOther :: "string \<Rightarrow> string \<Rightarrow> string option"
  startClock :: string
  changelogClock :: string

text \<open>
  The working tree, the repository, the remote and what the script prints.
  \<open>treeChanged\<close> is whether \<^verbatim>\<open>git status --porcelain\<close> prints anything;
  \<open>tags\<close> and \<open>commits\<close> are oldest first (commits by their message);
  \<open>remoteCommits\<close> counts the commits the remote already has; \<open>reportFile\<close> holds
  every content written to \<^verbatim>\<open>report.md\<close>, oldest first.
\<close>

record world =
  manifestVersion :: string
  treeChanged :: bool
  tags :: "string list"
  commits :: "string list"
  remoteCommits :: nat
  changelogFile :: "string option"
  reportFile :: "string list"
  console :: "string list"
  trace :: "cmd list"

text \<open>The object \<^verbatim>\<open>this.report\<close> and the \<^verbatim>\<open>ReleaseManager\<close> that owns it.\<close>

record report =
  timestamp :: string
  version :: "string option"
  commitSha :: "string option"
  changes :: "string list"
  issues :: "string list"
  solutions :: "string list"
  packageInfo :: "string option"
  registryUrls :: "string list"
  status :: string

record manager =
  warnings :: "string list"
  errors :: "string list"
  currentBranch :: "string option"
  report :: report

record state =
  mgr :: manager
  wld :: world

text \<open>
  A method either returns (\<open>Ok\<close>) or throws an error with a message (\<open>Thrown\<close>); in
  both cases the state it has reached stays.
\<close>

datatype 'a result = Ok 'a state | Thrown string state

type_synonym 'a action = "state \<Rightarrow> 'a result"

definition stateOf :: "'a result \<Rightarrow> state" where
  "stateOf r = (case r of Ok x s \<Rightarrow> s | Thrown m s \<Rightarrow> s)"

definition isThrown :: "'a result \<Rightarrow> bool" where
  "isThrown r = (case r of Ok x s \<Rightarrow> False | Thrown m s \<Rightarrow> True)"

definition ret :: "'a \<Rightarrow> 'a action" where
  "ret x s = Ok x s"

definition throw :: "string \<Rightarrow> 'a action" where
  "throw m s = Thrown m s"

definition bnd :: "'a action \<Rightarrow> ('a \<Rightarrow> 'b action) \<Rightarrow> 'b action" where
  "bnd a f s = (case a s of Ok x s' \<Rightarrow> f x s' | Thrown m s' \<Rightarrow> Thrown m s')"

definition thn :: "'a action \<Rightarrow> 'b action \<Rightarrow> 'b action" where
  "thn a b = bnd a (\<lambda>x. b)"

text \<open>Statements in sequence: the first that throws ends the block.\<close>

fun block :: "unit action list \<Rightarrow> unit action" where
  "block [] = ret ()"
| "block (a # as) = thn a (block as)"

definition whenThen :: "bool \<Rightarrow> unit action \<Rightarrow> unit action" where
  "whenThen c a = (if c then a else ret ())"

text \<open>\<^verbatim>\<open>try { a } catch (error) { h(error.message) }\<close>.\<close>

definition tryCatch :: "'a action \<Rightarrow> (string \<Rightarrow> 'a action) \<Rightarrow> 'a action" where
  "tryCatch a h s = (case a s of Ok x s' \<Rightarrow> Ok x s' | Thrown m s' \<Rightarrow> h m s')"

definition modify :: "(state \<Rightarrow> state) \<Rightarrow> unit action" where
  "modify f s = Ok () (f s)"

definition updWorld :: "(world \<Rightarrow> world) \<Rightarrow> state \<Rightarrow> state" where
  "updWorld f s = s\<lparr>wld := f (wld s)\<rparr>"

definition updManager :: "(manager \<Rightarrow> manager) \<Rightarrow> state \<Rightarrow> state" where
  "updManager f s = s\<lparr>mgr := f (mgr s)\<rparr>"

definition updReport :: "(report \<Rightarrow> report) \<Rightarrow> state \<Rightarrow> state" where
  "updReport f = updManager (\<lambda>m. m\<lparr>report := f (report m)\<rparr>)"

definition gets :: "(state \<Rightarrow> 'a) \<Rightarrow> 'a action" where
  "gets f s = Ok (f s) s"

definition ignore :: "'a action \<Rightarrow> unit action" where
  "ignore a = bnd a (\<lambda>x. ret ())"

subsection \<open>What the external commands do\<close>

text \<open>
  \<^verbatim>\<open>npm version <kind> --no-git-tag-version\<close> on a manifest version in canonical
  form increments one component for the kinds patch, minor and major. What npm does
  with any other argument or version is left to \<open>npmVersionOther\<close>; \<open>None\<close> means
  the command fails.
\<close>

definition bump :: "env \<Rightarrow> string \<Rightarrow> string \<Rightarrow> string option" where
  "bump e kind v =
     (case map parseNat (split (CHR ''.'') v) of
        [a, b, c] \<Rightarrow>
          if versionRegex v \<and> showVersion a b c = v \<and> kind = ''patch''
            then Some (showVersion a b (c + 1))
          else if versionRegex v \<and> showVersion a b c = v \<and> kind = ''minor''
            then Some (showVersion a (b + 1) 0)
          else if versionRegex v \<and> showVersion a b c = v \<and> kind = ''major''
            then Some (showVersion (a + 1) 0 0)
          else npmVersionOther e kind v
      | _ \<Rightarrow> npmVersionOther e kind v)"

text \<open>
  \<^verbatim>\<open>npm pkg fix\<close> normalises the manifest in place, the version field included. A
  version in canonical form X.Y.Z (three numbers without leading zeros) is left as it
  is. What npm makes of any other version
  is left to \<open>pkgFixOther\<close>: the cleaned version (a leading \<^verbatim>\<open>v\<close> is dropped, for
  one), or \<open>None\<close> when npm rejects the version; the command then fails and writes
  nothing. \<open>fixedVersion\<close> is the version in the manifest after the command was run,
  and \<open>pkgFixModifies\<close> says whether the command rewrites anything else in the
  manifest.
\<close>

definition canonical :: "string \<Rightarrow> bool" where
  "canonical v =
     (if versionRegex v then
        (case map parseNat (split (CHR ''.'') v) of
           [a, b, c] \<Rightarrow> showVersion a b c = v
         | _ \<Rightarrow> False)
      else False)"

definition pkgFixVersion :: "env \<Rightarrow> string \<Rightarrow> string option" where
  "pkgFixVersion e v = (if canonical v then Some v else pkgFixOther e v)"

definition fixedVersion :: "env \<Rightarrow> string \<Rightarrow> string" where
  "fixedVersion e v = (case pkgFixVersion e v of None \<Rightarrow> v | Some u \<Rightarrow> u)"

definition isViewVersion :: "cmd \<Rightarrow> bool" where
  "isViewVersion c = (case c of NpmViewVersion n \<Rightarrow> True | _ \<Rightarrow> False)"

text \<open>
  A command exits non-zero when the environment says so, and also: the registry query,
  whose k-th run fails as \<open>viewVersionFails\<close> says (the registry needs time to show a
  new version); \<^verbatim>\<open>git describe\<close> in a repository without tags; the version bump
  that npm refuses; \<^verbatim>\<open>npm pkg fix\<close> on a version that npm rejects; the creation of
  a tag that exists.
\<close>

definition cmdFails :: "env \<Rightarrow> cmd \<Rightarrow> world \<Rightarrow> bool" where
  "cmdFails e c w =
     (case c of
        NpmViewVersion n \<Rightarrow> viewVersionFails e (length (filter isViewVersion (trace w)))
      | GitDescribe \<Rightarrow> fails e c \<or> tags w = []
      | NpmVersion k \<Rightarrow> fails e c \<or> bump e k (manifestVersion w) = None
      | NpmPkgFix \<Rightarrow> fails e c \<or> pkgFixVersion e (manifestVersion w) = None
      | GitTagAnnotated t m \<Rightarrow> fails e c \<or> t \<in> set (tags w)
      | _ \<Rightarrow> fails e c)"

text \<open>
  The standard output of a command that succeeds. \<^verbatim>\<open>git tag -l p\<close> lists the tags
  equal to \<open>p\<close> (the patterns of this script hold no wildcard when the version is
  digits and dots) and succeeds with an empty listing when there is none.
\<close>

definition stdout :: "env \<Rightarrow> cmd \<Rightarrow> world \<Rightarrow> string" where
  "stdout e c w =
     (case c of
        GitRevParseBranch \<Rightarrow> branchOut e
      | GitStatus \<Rightarrow> (if treeChanged w then '' M package.json'' @ [nl] else [])
      | NpmPkgGetVersion \<Rightarrow> [CHR 0x22] @ manifestVersion w @ [CHR 0x22, nl]
      | GitTagList p \<Rightarrow> concat (map (\<lambda>t. t @ [nl]) (filter (\<lambda>t. t = p) (tags w)))
      | GitDescribe \<Rightarrow> (case rev (tags w) of [] \<Rightarrow> [] | t # ts \<Rightarrow> t @ [nl])
      | GitLog t \<Rightarrow> gitLogOut e
      | GitDiffCached \<Rightarrow> stagedOut e
      | GitRevList \<Rightarrow>
          concat (replicate (length (commits w) - remoteCommits w) (''0000000'' @ [nl]))
      | GitRevParseHead \<Rightarrow> headSha e (commits w)
      | NpmViewVersion n \<Rightarrow> viewVersionOut e
      | NpmView n \<Rightarrow> viewOut e
      | _ \<Rightarrow> [])"

text \<open>What a command that succeeds changes.\<close>

definition effect :: "env \<Rightarrow> cmd \<Rightarrow> world \<Rightarrow> world" where
  "effect e c w =
     (case c of
        NpmPkgFix \<Rightarrow>
          w\<lparr>manifestVersion := fixedVersion e (manifestVersion w),
            treeChanged := treeChanged w \<or> pkgFixModifies e
                           \<or> fixedVersion e (manifestVersion w) \<noteq> manifestVersion w\<rparr>
      | NpmVersion k \<Rightarrow>
          (case bump e k (manifestVersion w) of
             None \<Rightarrow> w
           | Some v \<Rightarrow> w\<lparr>manifestVersion := v, treeChanged := True\<rparr>)
      | GitCommit m \<Rightarrow> w\<lparr>commits := commits w @ [m], treeChanged := False\<rparr>
      | GitCommitNoVerify m \<Rightarrow> w\<lparr>commits := commits w @ [m], treeChanged := False\<rparr>
      | GitTagAnnotated t m \<Rightarrow> w\<lparr>tags := tags w @ [t]\<rparr>
      | GitPush b \<Rightarrow> w\<lparr>remoteCommits := length (commits w)\<rparr>
      | _ \<Rightarrow> w)"

text \<open>\<^verbatim>\<open>execSync(c)\<close>: throws when the command fails, returns its output otherwise.\<close>

definition execSync :: "env \<Rightarrow> cmd \<Rightarrow> string action" where
  "execSync e c s =
     (let w = wld s; w' = w\<lparr>trace := trace w @ [c]\<rparr> in
      if cmdFails e c w then Thrown (failMessage e c) (s\<lparr>wld := w'\<rparr>)
      else Ok (stdout e c w) (s\<lparr>wld := effect e c w'\<rparr>))"

subsection \<open>Logging\<close>

definition printLine :: "string \<Rightarrow> unit action" where
  "printLine l = modify (updWorld (\<lambda>w. w\<lparr>console := console w @ [l]\<rparr>))"

definition log :: "string \<Rightarrow> unit action" where
  "log message = printLine message"

definition warn :: "string \<Rightarrow> unit action" where
  "warn message =
     block [modify (updManager (\<lambda>m. m\<lparr>warnings := warnings m @ [message]\<rparr>)),
            printLine message]"

definition error :: "string \<Rightarrow> unit action" where
  "error message =
     block [modify (updManager (\<lambda>m. m\<lparr>errors := errors m @ [message]\<rparr>)),
            printLine message]"

definition pushIssue :: "string \<Rightarrow> unit action" where
  "pushIssue x = modify (updReport (\<lambda>r. r\<lparr>issues := issues r @ [x]\<rparr>))"

definition pushSolution :: "string \<Rightarrow> unit action" where
  "pushSolution x = modify (updReport (\<lambda>r. r\<lparr>solutions := solutions r @ [x]\<rparr>))"

definition pushRegistryUrl :: "string \<Rightarrow> unit action" where
  "pushRegistryUrl x = modify (updReport (\<lambda>r. r\<lparr>registryUrls := registryUrls r @ [x]\<rparr>))"

definition setVersion :: "string \<Rightarrow> unit action" where
  "setVersion v = modify (updReport (\<lambda>r. r\<lparr>version := Some v\<rparr>))"

subsection \<open>Methods that are the same in both files\<close>

text \<open>The new changelog section (\<^verbatim>\<open>newEntry\<close> of \<^verbatim>\<open>updateChangelog\<close>).\<close>

definition newEntry :: "string \<Rightarrow> string \<Rightarrow> string list \<Rightarrow> string" where
  "newEntry ver today chs =
     ''## ['' @ ver @ ''] - '' @ today @ [nl, nl] @ ''### Changed'' @ [nl]
       @ (if join [nl] chs \<noteq> [] then join [nl] chs else ''- Release automatico'')
       @ [nl, nl]"

text \<open>
  The loop over \<^verbatim>\<open>lines\<close>: the index of the first line that starts with
  \<^verbatim>\<open>## [\<close>, and 0 when there is none. \<open>findHeading ls i\<close> is the loop from index
  \<open>i\<close> on, \<open>ls\<close> the lines not yet seen.
\<close>

fun findHeading :: "string list \<Rightarrow> nat \<Rightarrow> nat" where
  "findHeading [] i = 0"
| "findHeading (l # ls) i = (if startsWith l ''## ['' then i else findHeading ls (Suc i))"

definition insertIndex :: "string list \<Rightarrow> nat" where
  "insertIndex lines = findHeading lines 0"

text \<open>\<^verbatim>\<open>lines.slice(0, insertIndex).join('\n') + '\n' + newEntry + lines.slice(insertIndex).join('\n')\<close>.\<close>

definition updatedChangelog :: "string \<Rightarrow> string \<Rightarrow> string" where
  "updatedChangelog changelog entry =
     (let lines = split nl changelog; i = insertIndex lines in
      join [nl] (take i lines) @ [nl] @ entry @ join [nl] (drop i lines))"

text \<open>\<^verbatim>\<open>new Date().toISOString().split('T')[0]\<close>.\<close>

definition isoDate :: "string \<Rightarrow> string" where
  "isoDate clock = (case split (CHR ''T'') clock of [] \<Rightarrow> [] | d # ds \<Rightarrow> d)"

text \<open>
  \<^verbatim>\<open>fs.writeFileSync('CHANGELOG.md', c)\<close>; the working tree counts as changed when
  the file is new or its content differs.
\<close>

definition writeChangelog :: "string \<Rightarrow> unit action" where
  "writeChangelog c =
     modify (updWorld (\<lambda>w. w\<lparr>changelogFile := Some c,
                               treeChanged := (treeChanged w \<or> changelogFile w \<noteq> Some c)\<rparr>))"

definition updateChangelog :: "env \<Rightarrow> unit action" where
  "updateChangelog e =
     block [
       log ''=== PASO 5: CHANGELOG ==='',
       bnd (tryCatch (bnd (execSync e GitDescribe) (\<lambda>out. ret (trim out)))
                     (\<lambda>err. thn (warn ''No se encontraron tags anteriores'') (ret [])))
         (\<lambda>lastTag.
       bnd (if lastTag \<noteq> [] then
              bnd (execSync e (GitLog lastTag)) (\<lambda>out.
                let commitLines = trim out in
                if commitLines \<noteq> [] then ret (map (\<lambda>c. ''- '' @ c) (split nl commitLines))
                else
                  bnd (execSync e GitDiffCached) (\<lambda>out2.
                    let staged = trim out2 in
                    if staged \<noteq> []
                    then ret [''- Cambios en archivos: '' @ join '', '' (split nl staged)]
                    else ret []))
            else ret [])
         (\<lambda>chs.
       block [
         whenThen (chs = []) (warn ''No se encontraron cambios desde el ultimo tag''),
         bnd (gets (\<lambda>s. case changelogFile (wld s) of None \<Rightarrow> [] | Some c \<Rightarrow> c))
           (\<lambda>changelog.
         bnd (gets (\<lambda>s. version (report (mgr s)))) (\<lambda>v.
           block [
             writeChangelog
               (updatedChangelog changelog (newEntry (str v) (isoDate (changelogClock e)) chs)),
             log ''CHANGELOG.md actualizado'']))]))]"

text \<open>The text of \<^verbatim>\<open>report.md\<close>.\<close>

definition bullets :: "string list \<Rightarrow> string" where
  "bullets xs = join [nl] (map (\<lambda>x. ''- '' @ x) xs)"

definition reportContent :: "report \<Rightarrow> string" where
  "reportContent r =
     ''# Reporte de Publicacion'' @ [nl]
     @ ''**Fecha:** '' @ timestamp r @ [nl]
     @ ''**Estado:** '' @ status r @ [nl]
     @ ''**Version:** '' @ str (version r) @ [nl]
     @ ''**Commit SHA:** '' @ str (commitSha r) @ [nl, nl]
     @ ''## URLs de Registros'' @ [nl]
     @ bullets (registryUrls r) @ [nl, nl]
     @ ''## Problemas Encontrados'' @ [nl]
     @ (if issues r \<noteq> [] then bullets (issues r) else ''Ninguno'') @ [nl, nl]
     @ ''## Soluciones Aplicadas'' @ [nl]
     @ (if solutions r \<noteq> [] then bullets (solutions r) else ''Ninguna'') @ [nl, nl]
     @ ''## Informacion del Paquete'' @ [nl]
     @ replicate 3 (CHR 0x60) @ [nl]
     @ (case packageInfo r of None \<Rightarrow> ''No disponible''
        | Some i \<Rightarrow> if i = [] then ''No disponible'' else i) @ [nl]
     @ replicate 3 (CHR 0x60) @ [nl]"

definition generateReport :: "unit action" where
  "generateReport =
     block [
       log ''=== PASO 11: Generacion de reporte ==='',
       modify (\<lambda>s. updReport (\<lambda>r. r\<lparr>status :=
                  (if errors (mgr s) \<noteq> [] then ''failed'' else ''completed'')\<rparr>) s),
       modify (\<lambda>s. updReport (\<lambda>r. r\<lparr>issues := errors (mgr s) @ warnings (mgr s)\<rparr>) s),
       modify (\<lambda>s. updWorld (\<lambda>w. w\<lparr>reportFile :=
                  reportFile w @ [reportContent (report (mgr s))]\<rparr>) s),
       log ''Reporte generado: report.md'']"

text \<open>The constructor.\<close>

definition newManager :: "env \<Rightarrow> manager" where
  "newManager e =
     \<lparr>warnings = [], errors = [], currentBranch = None,
      report = \<lparr>timestamp = startClock e, version = None, commitSha = None, changes = [],
                issues = [], solutions = [], packageInfo = None, registryUrls = [],
                status = ''pending''\<rparr>\<rparr>"

text \<open>\<^verbatim>\<open>releaseType = 'patch'\<close>: the default of a parameter that is not passed.\<close>

definition orDefault :: "string option \<Rightarrow> string \<Rightarrow> string" where
  "orDefault arg d = (case arg of None \<Rightarrow> d | Some x \<Rightarrow> x)"

text \<open>\<^verbatim>\<open>!process.env.NPM_TOKEN\<close>: the variable is unset or empty.\<close>

definition tokenMissing :: "env \<Rightarrow> bool" where
  "tokenMissing e = (case npmToken e of None \<Rightarrow> True | Some t \<Rightarrow> t = [])"

subsection \<open>The methods of src/scripts/release.js\<close>

definition preVerification :: "env \<Rightarrow> unit action" where
  "preVerification e =
     block [
       log ''=== PASO 1: Verificacion previa ==='',
       bnd (execSync e GitRevParseBranch) (\<lambda>out.
         let branch = trim out in
         block [
           whenThen (branch \<noteq> ''master'' \<and> branch \<noteq> ''main'')
             (throw (''Rama actual es '' @ [CHR 0x27] @ branch @ [CHR 0x27]
                     @ ''. Debe estar en '' @ [CHR 0x27] @ ''master'' @ [CHR 0x27]
                     @ '' o '' @ [CHR 0x27] @ ''main'' @ [CHR 0x27])),
           log (''Rama correcta: '' @ branch),
           bnd (execSync e GitStatus) (\<lambda>out2.
             let gitStatus = trim out2 in
             block [
               whenThen (gitStatus \<noteq> [])
                 (throw ''Hay cambios sin anadir. Por favor, anade o descarta los cambios antes de continuar.''),
               log ''Repositorio limpio'',
               log ''Ejecutando npm pkg fix...'',
               ignore (execSync e NpmPkgFix),
               bnd (gets (\<lambda>s. manifestVersion (wld s))) (\<lambda>v.
                 block [
                   whenThen (\<not> versionRegex v)
                     (throw (''Version '' @ [CHR 0x27] @ v @ [CHR 0x27]
                             @ '' no sigue formato semver X.Y.Z'')),
                   setVersion v,
                   log (''Version semver valida: '' @ v)])])])]"

definition testsFailed :: "unit action" where
  "testsFailed =
     block [
       warn ''Paquete sin tests configurados - continuando con advertencia'',
       pushIssue ''Tests no configurados'',
       pushSolution ''Se recomienda agregar tests antes del proximo release'']"

definition dependenciesAndTests :: "env \<Rightarrow> unit action" where
  "dependenciesAndTests e =
     block [
       log ''=== PASO 2: Dependencias y pruebas ==='',
       log ''Instalando dependencias...'',
       ignore (execSync e NpmCi),
       log ''Ejecutando tests...'',
       tryCatch (block [ignore (execSync e NpmTest), log ''Tests pasaron exitosamente''])
                (\<lambda>err. testsFailed)]"

definition build :: "env \<Rightarrow> unit action" where
  "build e =
     block [
       log ''=== PASO 3: Build ==='',
       if buildScript e then
         block [
           log ''Ejecutando build...'',
           ignore (execSync e NpmRunBuild),
           log ''Build completado'']
       else log ''No hay script de build definido - omitiendo'']"

definition readVersion :: "env \<Rightarrow> string action" where
  "readVersion e = bnd (execSync e NpmPkgGetVersion) (\<lambda>out. ret (stripQuotes (trim out)))"

definition versioning :: "env \<Rightarrow> string option \<Rightarrow> unit action" where
  "versioning e arg =
     (let releaseType = orDefault arg ''patch'' in
      block [
        log ''=== PASO 4: Versionado ==='',
        bnd (readVersion e) (\<lambda>currentVersion.
          block [
            setVersion currentVersion,
            tryCatch
              (block [
                 ignore (execSync e (GitTagList (''v'' @ currentVersion))),
                 log (''Usando version existente: '' @ currentVersion @ '' (tag ya existe)'')])
              (\<lambda>err.
                 block [
                   ignore (execSync e (NpmVersion releaseType)),
                   bnd (readVersion e) (\<lambda>newVersion.
                     block [
                       setVersion newVersion,
                       log (''Version incrementada: '' @ currentVersion @ '' -> ''
                            @ newVersion)])])])])"

definition commitRelease :: "env \<Rightarrow> string \<Rightarrow> unit action" where
  "commitRelease e commitMessage =
     tryCatch (ignore (execSync e (GitCommit commitMessage)))
       (\<lambda>msg.
          if includesStr msg ''pre-commit'' then
            block [
              warn ''Hook pre-commit no encontrado - usando --no-verify'',
              ignore (execSync e (GitCommitNoVerify commitMessage)),
              pushIssue ''Hooks de pre-commit no ejecutados'',
              pushSolution ''Se recomienda ejecutar hooks de calidad manualmente'']
          else throw msg)"

definition commitAndTag :: "env \<Rightarrow> unit action" where
  "commitAndTag e =
     block [
       log ''=== PASO 6: Commit y tag ==='',
       ignore (execSync e GitAddAll),
       bnd (execSync e GitStatus) (\<lambda>out.
         let gitStatus = trim out in
         if gitStatus = [] then log ''No hay cambios para commitear''
         else
           bnd (gets (\<lambda>s. str (version (report (mgr s))))) (\<lambda>v.
             let commitMessage = ''chore(release): v'' @ v in
             block [
               commitRelease e commitMessage,
               tryCatch
                 (block [
                    ignore (execSync e (GitTagList (''v'' @ v))),
                    log (''Tag v'' @ v @ '' ya existe - omitiendo creacion'')])
                 (\<lambda>err.
                    block [
                      ignore (execSync e (GitTagAnnotated (''v'' @ v) (''Release v'' @ v))),
                      log (''Tag creado: v'' @ v)]),
               log (''Commit procesado: '' @ commitMessage)]))]"

definition recordHead :: "env \<Rightarrow> unit action" where
  "recordHead e =
     bnd (execSync e GitRevParseHead) (\<lambda>out.
       modify (updReport (\<lambda>r. r\<lparr>commitSha := Some (trim out)\<rparr>)))"

definition push :: "env \<Rightarrow> unit action" where
  "push e =
     block [
       log ''=== PASO 7: Push ==='',
       bnd (execSync e GitRevList) (\<lambda>out.
         let localCommits = trim out in
         if localCommits \<noteq> [] then
           block [
             ignore (execSync e (GitPush ''master'')),
             log ''Push de commits completado'']
         else log ''No hay commits nuevos para pushear''),
       tryCatch (block [ignore (execSync e GitPushTags), log ''Push de tags completado''])
                (\<lambda>err. log ''No hay tags nuevos para pushear o ya estan en el remoto''),
       recordHead e]"

definition publishToNpm :: "env \<Rightarrow> unit action" where
  "publishToNpm e =
     block [
       log ''=== PASO 8: Publicacion en npmjs ==='',
       whenThen (tokenMissing e) (throw ''Variable de entorno NPM_TOKEN no configurada''),
       ignore (execSync e NpmPublish),
       pushRegistryUrl ''https://www.npmjs.com/package/create-python-modern'',
       log ''Publicacion en npm completada'']"

definition publishToGitHub :: "env \<Rightarrow> unit action" where
  "publishToGitHub e =
     block [
       log ''=== PASO 9: Publicacion en GitHub Packages ==='',
       if includesStr (packageName e) ''/'' then
         (if npmrcFile e \<noteq> None then
            block [
              ignore (execSync e NpmPublishGitHub),
              pushRegistryUrl ''https://github.com/jhonma82/create-python-modern/packages'',
              log ''Publicacion en GitHub Packages completada'']
          else warn ''Archivo .npmrc no encontrado para GitHub Packages'')
       else warn ''Paquete sin scope - omitiendo GitHub Packages'']"

definition verification :: "env \<Rightarrow> unit action" where
  "verification e =
     block [
       log ''=== PASO 10: Verificacion ==='',
       bnd (execSync e (NpmViewVersion (packageName e))) (\<lambda>out.
         let npmVersion = trim out in
         bnd (gets (\<lambda>s. version (report (mgr s)))) (\<lambda>v.
           block [
             whenThen (Some npmVersion \<noteq> v)
               (throw (''Version en npm ('' @ npmVersion @ '') no coincide con version local (''
                       @ str v @ '')'')),
             log (''Version verificada en npm: '' @ npmVersion),
             bnd (execSync e (NpmView (packageName e))) (\<lambda>out2.
               modify (updReport (\<lambda>r. r\<lparr>packageInfo := Some (trim out2)\<rparr>)))]))]"

text \<open>
  \<^verbatim>\<open>run\<close>: the steps in order inside \<^verbatim>\<open>try\<close>; the \<^verbatim>\<open>catch\<close> block prints the
  error, writes the report and throws the error again. The stack trace it prints is
  not modelled.
\<close>

definition run :: "env \<Rightarrow> string option \<Rightarrow> unit action" where
  "run e arg =
     (let releaseType = orDefault arg ''patch'' in
      block [
        printLine (''DEBUG: Iniciando run() con releaseType: '' @ releaseType),
        tryCatch
          (block [
             printLine ''DEBUG: Ejecutando preVerification()'',
             preVerification e,
             printLine ''DEBUG: Ejecutando dependenciesAndTests()'',
             dependenciesAndTests e,
             printLine ''DEBUG: Ejecutando build()'',
             build e,
             printLine ''DEBUG: Ejecutando versioning()'',
             versioning e (Some releaseType),
             printLine ''DEBUG: Ejecutando updateChangelog()'',
             updateChangelog e,
             printLine ''DEBUG: Ejecutando commitAndTag()'',
             commitAndTag e,
             printLine ''DEBUG: Ejecutando push()'',
             push e,
             printLine ''DEBUG: Ejecutando publishToNpm()'',
             publishToNpm e,
             printLine ''DEBUG: Ejecutando publishToGitHub()'',
             publishToGitHub e,
             printLine ''DEBUG: Ejecutando verification()'',
             verification e,
             printLine ''DEBUG: Ejecutando generateReport()'',
             generateReport,
             log ''Proceso de liberacion completado exitosamente!'',
             bnd (gets (\<lambda>s. report (mgr s))) (\<lambda>r.
               block [
                 log (''Version publicada: '' @ str (version r)),
                 log (''Commit: '' @ str (commitSha r))])])
          (\<lambda>msg.
             block [
               printLine (''DEBUG: Error en el proceso: '' @ msg),
               printLine ''DEBUG: Stack trace:'',
               generateReport,
               throw msg])])"

text \<open>
  The entry point: \<^verbatim>\<open>process.argv[2] || 'patch'\<close>, a new manager, \<^verbatim>\<open>run\<close>, and
  exit code 1 when \<^verbatim>\<open>run\<close> throws.
\<close>

definition argReleaseType :: "string list \<Rightarrow> string" where
  "argReleaseType argv =
     (if 2 < length argv \<and> argv ! 2 \<noteq> [] then argv ! 2 else ''patch'')"

definition main :: "env \<Rightarrow> string list \<Rightarrow> world \<Rightarrow> nat \<times> state" where
  "main e argv w =
     (case run e (Some (argReleaseType argv)) \<lparr>mgr = newManager e, wld = w\<rparr> of
        Ok x s \<Rightarrow> (0, s)
      | Thrown m s \<Rightarrow>
          (1, stateOf (printLine (''Proceso de liberacion fallido: '' @ m) s)))"

subsection \<open>The methods of src/unnamed/part_002\<close>

definition preVerification_p2 :: "env \<Rightarrow> unit action" where
  "preVerification_p2 e =
     block [
       log ''=== PASO 1: Verificacion previa ==='',
       bnd (execSync e GitRevParseBranch) (\<lambda>out.
         let branch = trim out in
         block [
           modify (updManager (\<lambda>m. m\<lparr>currentBranch := Some branch\<rparr>)),
           whenThen (branch \<noteq> ''master'' \<and> branch \<noteq> ''main'')
             (throw (''Rama actual es '' @ [CHR 0x27] @ branch @ [CHR 0x27]
                     @ ''. Debe estar en '' @ [CHR 0x27] @ ''master'' @ [CHR 0x27]
                     @ '' o '' @ [CHR 0x27] @ ''main'' @ [CHR 0x27])),
           log (''Rama correcta: '' @ branch),
           bnd (execSync e GitStatus) (\<lambda>out2.
             let gitStatus = trim out2 in
             block [
               whenThen (gitStatus \<noteq> [])
                 (throw ''Hay cambios sin anadir. Por favor, anade o descarta los cambios antes de continuar.''),
               log ''Repositorio limpio'',
               log ''Ejecutando npm pkg fix...'',
               ignore (execSync e NpmPkgFix),
               bnd (gets (\<lambda>s. manifestVersion (wld s))) (\<lambda>v.
                 block [
                   whenThen (\<not> versionRegex v)
                     (throw (''Version '' @ [CHR 0x27] @ v @ [CHR 0x27]
                             @ '' no sigue formato semver X.Y.Z'')),
                   setVersion v,
                   log (''Version semver valida: '' @ v)])])])]"

definition dependenciesAndTests_p2 :: "env \<Rightarrow> unit action" where
  "dependenciesAndTests_p2 e =
     block [
       log ''=== PASO 2: Dependencias y pruebas ==='',
       log ''Instalando dependencias...'',
       tryCatch (ignore (execSync e NpmCi))
                (\<lambda>msg. throw (''Error instalando dependencias: '' @ msg)),
       log ''Ejecutando tests...'',
       tryCatch (block [ignore (execSync e NpmTest), log ''Tests pasaron exitosamente''])
                (\<lambda>err. testsFailed)]"

definition build_p2 :: "env \<Rightarrow> unit action" where
  "build_p2 e =
     block [
       log ''=== PASO 3: Build ==='',
       if buildScript e then
         block [
           log ''Ejecutando build...'',
           tryCatch (block [ignore (execSync e NpmRunBuild), log ''Build completado''])
                    (\<lambda>msg. throw (''Error en build: '' @ msg))]
       else log ''No hay script de build definido - omitiendo'']"

definition versioning_p2 :: "env \<Rightarrow> string option \<Rightarrow> unit action" where
  "versioning_p2 e arg =
     (let releaseType = orDefault arg ''patch'' in
      block [
        log ''=== PASO 4: Versionado ==='',
        bnd (readVersion e) (\<lambda>currentVersion.
          block [
            setVersion currentVersion,
            bnd (execSync e (GitTagList (''v'' @ currentVersion))) (\<lambda>out.
              let existingTags = trim out in
              if existingTags \<noteq> [] then
                log (''Usando version existente: '' @ currentVersion @ '' (tag ya existe)'')
              else
                block [
                  log (''Incrementando version '' @ releaseType @ '': '' @ currentVersion),
                  ignore (execSync e (NpmVersion releaseType)),
                  bnd (readVersion e) (\<lambda>newVersion.
                    block [
                      setVersion newVersion,
                      log (''Version incrementada: '' @ currentVersion @ '' -> ''
                           @ newVersion)])])])])"

definition commitAndTag_p2 :: "env \<Rightarrow> unit action" where
  "commitAndTag_p2 e =
     block [
       log ''=== PASO 6: Commit y tag ==='',
       ignore (execSync e GitAddAll),
       bnd (execSync e GitStatus) (\<lambda>out.
         let gitStatus = trim out in
         if gitStatus = [] then log ''No hay cambios para commitear''
         else
           bnd (gets (\<lambda>s. str (version (report (mgr s))))) (\<lambda>v.
             let commitMessage = ''chore(release): v'' @ v in
             block [
               commitRelease e commitMessage,
               bnd (execSync e (GitTagList (''v'' @ v))) (\<lambda>out2.
                 let existingTags = trim out2 in
                 if existingTags \<noteq> [] then
                   log (''Tag v'' @ v @ '' ya existe - omitiendo creacion'')
                 else
                   block [
                     ignore (execSync e (GitTagAnnotated (''v'' @ v) (''Release v'' @ v))),
                     log (''Tag creado: v'' @ v)]),
               log (''Commit procesado: '' @ commitMessage)]))]"

definition push_p2 :: "env \<Rightarrow> unit action" where
  "push_p2 e =
     block [
       log ''=== PASO 7: Push ==='',
       tryCatch
         (bnd (gets (\<lambda>s. str (currentBranch (mgr s)))) (\<lambda>b.
            block [
              ignore (execSync e (GitPush b)),
              log ''Push de commits completado'',
              ignore (execSync e GitPushTags),
              log ''Push de tags completado'']))
         (\<lambda>msg. throw (''Error en push: '' @ msg)),
       recordHead e]"

definition publishToNpm_p2 :: "env \<Rightarrow> unit action" where
  "publishToNpm_p2 e =
     block [
       log ''=== PASO 8: Publicacion en npmjs ==='',
       whenThen (tokenMissing e) (throw ''Variable de entorno NPM_TOKEN no configurada''),
       tryCatch
         (block [
            ignore (execSync e NpmPublish),
            pushRegistryUrl (''https://www.npmjs.com/package/'' @ packageName e),
            log ''Publicacion en npm completada''])
         (\<lambda>msg. throw (''Error publicando en npm: '' @ msg))]"

definition publishToGitHub_p2 :: "env \<Rightarrow> unit action" where
  "publishToGitHub_p2 e =
     block [
       log ''=== PASO 9: Publicacion en GitHub Packages ==='',
       if includesStr (packageName e) ''/'' then
         (case npmrcFile e of
            Some npmrcContent \<Rightarrow>
              if includesStr npmrcContent ''npm.pkg.github.com'' then
                tryCatch
                  (block [
                     ignore (execSync e NpmPublishGitHub),
                     pushRegistryUrl ''https://github.com/jhonma82/create-python-modern/packages'',
                     log ''Publicacion en GitHub Packages completada''])
                  (\<lambda>msg.
                     block [
                       warn (''Error publicando en GitHub Packages: '' @ msg),
                       pushIssue ''Error en publicacion de GitHub Packages'',
                       pushSolution ''Verificar configuracion de autenticacion de GitHub''])
              else
                block [
                  warn ''Archivo .npmrc no configurado correctamente para GitHub Packages'',
                  pushIssue ''.npmrc sin configuracion de GitHub Packages'',
                  pushSolution ''Agregar configuracion de registry en .npmrc'']
          | None \<Rightarrow>
              block [
                warn ''Archivo .npmrc no encontrado para GitHub Packages'',
                pushIssue ''Archivo .npmrc no encontrado'',
                pushSolution ''Crear .npmrc con configuracion de GitHub Packages''])
       else warn ''Paquete sin scope - omitiendo GitHub Packages segun instrucciones'']"

text \<open>
  The retry loop of \<^verbatim>\<open>verification\<close>; the argument is \<^verbatim>\<open>retries\<close> at the head of
  the loop. The five seconds it waits between two queries are not modelled.
\<close>

fun viewLoop :: "env \<Rightarrow> nat \<Rightarrow> string option action" where
  "viewLoop e 0 = ret None"
| "viewLoop e (Suc n) =
     tryCatch
       (bnd (execSync e (NpmViewVersion (packageName e))) (\<lambda>out. ret (Some (trim out))))
       (\<lambda>msg.
          if 0 < n then
            thn (log (''Esperando propagacion en npm... ('' @ showNat (3 - n) @ ''/3)''))
                (viewLoop e n)
          else throw (''No se pudo verificar la publicacion en npm: '' @ msg))"

definition verification_p2 :: "env \<Rightarrow> unit action" where
  "verification_p2 e =
     block [
       log ''=== PASO 10: Verificacion ==='',
       bnd (viewLoop e 3) (\<lambda>npmVersion.
         bnd (gets (\<lambda>s. version (report (mgr s)))) (\<lambda>v.
           block [
             whenThen (npmVersion \<noteq> v)
               (throw (''Version en npm ('' @ str npmVersion
                       @ '') no coincide con version local ('' @ str v @ '')'')),
             log (''Version verificada en npm: '' @ str npmVersion),
             tryCatch
               (bnd (execSync e (NpmView (packageName e))) (\<lambda>out2.
                  modify (updReport (\<lambda>r. r\<lparr>packageInfo := Some (trim out2)\<rparr>))))
               (\<lambda>msg.
                  block [
                    warn (''No se pudo obtener informacion completa del paquete: '' @ msg),
                    modify (updReport
                      (\<lambda>r. r\<lparr>packageInfo := Some ''Informacion no disponible''\<rparr>))])]))]"

definition run_p2 :: "env \<Rightarrow> string option \<Rightarrow> unit action" where
  "run_p2 e arg =
     (let releaseType = orDefault arg ''patch'' in
      tryCatch
        (block [
           preVerification_p2 e,
           dependenciesAndTests_p2 e,
           build_p2 e,
           versioning_p2 e (Some releaseType),
           updateChangelog e,
           commitAndTag_p2 e,
           push_p2 e,
           publishToNpm_p2 e,
           publishToGitHub_p2 e,
           verification_p2 e,
           generateReport,
           log ''Proceso de liberacion completado exitosamente!'',
           bnd (gets (\<lambda>s. report (mgr s))) (\<lambda>r.
             block [
               log (''Version publicada: '' @ str (version r)),
               log (''Commit: '' @ str (commitSha r)),
               whenThen (registryUrls r \<noteq> [])
                 (block (log ''Paquete disponible en:''
                         # map (\<lambda>url. log (''   - '' @ url)) (registryUrls r)))])])
        (\<lambda>msg.
           block [
             error (''Error en el proceso: '' @ msg),
             generateReport,
             throw msg]))"

definition main_p2 :: "env \<Rightarrow> string list \<Rightarrow> world \<Rightarrow> nat \<times> state" where
  "main_p2 e argv w =
     (case run_p2 e (Some (argReleaseType argv)) \<lparr>mgr = newManager e, wld = w\<rparr> of
        Ok x s \<Rightarrow> (0, s)
      | Thrown m s \<Rightarrow>
          (1, stateOf (printLine (''Proceso de liberacion fallido: '' @ m) s)))"

subsection \<open>Notions the properties are stated with\<close>


text \<open>No publish command has been run.\<close>

definition noPublish :: "state \<Rightarrow> bool" where
  "noPublish s =
     (NpmPublish \<notin> set (trace (wld s)) \<and> NpmPublishGitHub \<notin> set (trace (wld s)))"



text \<open>
  The branch is not a release branch; the files the pipeline writes are as before; the
  repository and the remote are as before; the commands run since are among \<open>cs\<close>.
\<close>

definition wrongBranch :: "env \<Rightarrow> bool" where
  "wrongBranch e = (trim (branchOut e) \<noteq> ''master'' \<and> trim (branchOut e) \<noteq> ''main'')"






text \<open>The manifest version is \<open>v\<close> and the tags are \<open>ts\<close>.\<close>

definition keeps :: "string \<Rightarrow> string list \<Rightarrow> state \<Rightarrow> bool" where
  "keeps v ts s = (manifestVersion (wld s) = v \<and> tags (wld s) = ts)"

text \<open>
  The arguments of the version-bump commands in a trace, in order; and: every
  version-bump command run so far had the argument \<open>k\<close>.
\<close>

definition bumpArgs :: "cmd list \<Rightarrow> string list" where
  "bumpArgs t = concat (map (\<lambda>c. case c of NpmVersion k \<Rightarrow> [k] | _ \<Rightarrow> []) t)"

definition bumpOnly :: "string \<Rightarrow> state \<Rightarrow> bool" where
  "bumpOnly k s = (set (bumpArgs (trace (wld s))) \<subseteq> {k})"

text \<open>
  The commands \<open>cs\<close> have been run, the warnings \<open>ws\<close> recorded and the lines
  \<open>ls\<close> printed.
\<close>

definition progress :: "cmd list \<Rightarrow> string list \<Rightarrow> string list \<Rightarrow> state \<Rightarrow> bool" where
  "progress cs ws ls s =
     (set cs \<subseteq> set (trace (wld s)) \<and> set ws \<subseteq> set (warnings (mgr s))
      \<and> set ls \<subseteq> set (console (wld s)))"

text \<open>The same, and the warnings \<open>ws\<close> are among the issues of the report.\<close>

definition progressReported :: "cmd list \<Rightarrow> string list \<Rightarrow> string list \<Rightarrow> state \<Rightarrow> bool" where
  "progressReported cs ws ls s =
     (progress cs ws ls s \<and> set ws \<subseteq> set (issues (report (mgr s))))"



text \<open>
  The first three steps pass: a release branch, a clean tree, a manifest version that
  \<^verbatim>\<open>npm pkg fix\<close> accepts and leaves as three numbers, and none of the commands run
  before the version is bumped fails.
\<close>

definition firstStepsPass :: "env \<Rightarrow> world \<Rightarrow> bool" where
  "firstStepsPass e w =
     (\<not> wrongBranch e \<and> \<not> treeChanged w
      \<and> pkgFixVersion e (manifestVersion w) \<noteq> None
      \<and> versionRegex (fixedVersion e (manifestVersion w))
      \<and> \<not> fails e GitRevParseBranch \<and> \<not> fails e GitStatus \<and> \<not> fails e NpmPkgFix
      \<and> \<not> fails e NpmCi \<and> (buildScript e \<longrightarrow> \<not> fails e NpmRunBuild)
      \<and> \<not> fails e NpmPkgGetVersion
      \<and> \<not> fails e (GitTagList (''v'' @ fixedVersion e (manifestVersion w))))"

text \<open>The state of a manager just constructed, in a given world.\<close>

definition start :: "env \<Rightarrow> world \<Rightarrow> state" where
  "start e w = \<lparr>mgr = newManager e, wld = w\<rparr>"

subsection \<open>Reasoning about actions\<close>

text \<open>
  \<open>wp a Q R s\<close>: run from \<open>s\<close>, the action \<open>a\<close> returns in a state with \<open>Q\<close> or
  throws in a state with \<open>R\<close>. \<open>holds P a Q R\<close> is the same from every state with
  \<open>P\<close>, and \<open>preserves I a\<close> says that \<open>a\<close> keeps \<open>I\<close> however it ends.
\<close>

definition wp ::
  "'a action \<Rightarrow> ('a \<Rightarrow> state \<Rightarrow> bool) \<Rightarrow> (string \<Rightarrow> state \<Rightarrow> bool) \<Rightarrow> state \<Rightarrow> bool" where
  "wp a Q R s = (case a s of Ok x s' \<Rightarrow> Q x s' | Thrown m s' \<Rightarrow> R m s')"

definition holds ::
  "(state \<Rightarrow> bool) \<Rightarrow> 'a action \<Rightarrow> ('a \<Rightarrow> state \<Rightarrow> bool) \<Rightarrow> (string \<Rightarrow> state \<Rightarrow> bool) \<Rightarrow> bool"
  where
  "holds P a Q R = (\<forall>s. P s \<longrightarrow> wp a Q R s)"

definition preserves :: "(state \<Rightarrow> bool) \<Rightarrow> 'a action \<Rightarrow> bool" where
  "preserves I a = (\<forall>s. I s \<longrightarrow> I (stateOf (a s)))"

text \<open>
  The state after a line was printed, after a warning, after a command was started, and
  after a command succeeded.
\<close>

definition logged :: "string \<Rightarrow> state \<Rightarrow> state" where
  "logged l = updWorld (\<lambda>w. w\<lparr>console := console w @ [l]\<rparr>)"

definition warned :: "string \<Rightarrow> state \<Rightarrow> state" where
  "warned l s = logged l (updManager (\<lambda>m. m\<lparr>warnings := warnings m @ [l]\<rparr>) s)"

definition ran :: "cmd \<Rightarrow> state \<Rightarrow> state" where
  "ran c s = s\<lparr>wld := (wld s)\<lparr>trace := trace (wld s) @ [c]\<rparr>\<rparr>"

definition finished :: "env \<Rightarrow> cmd \<Rightarrow> state \<Rightarrow> state" where
  "finished e c s = s\<lparr>wld := effect e c ((wld s)\<lparr>trace := trace (wld s) @ [c]\<rparr>)\<rparr>"

subsection \<open>Example inputs\<close>

definition exChangelog :: string where
  "exChangelog = ''# Changelog'' @ [nl, nl] @ ''## [1.0.0] - 2025-09-01'' @ [nl]"


text \<open>
  How npm cleans a version that is not canonical, as far as the examples need it:
  blanks and a leading \<^verbatim>\<open>v\<close> or \<^verbatim>\<open>=\<close> are dropped, the three numbers lose their
  leading zeros, a pre-release or build suffix stays, and a version without three
  numbers is rejected.
\<close>

definition exPkgFix :: "string \<Rightarrow> string option" where
  "exPkgFix v =
     (let u = dropWhile (\<lambda>c. c = CHR ''v'' \<or> c = CHR ''='') (trim v);
          core = takeWhile (\<lambda>c. c \<noteq> CHR ''-'' \<and> c \<noteq> CHR ''+'') u;
          suffix = dropWhile (\<lambda>c. c \<noteq> CHR ''-'' \<and> c \<noteq> CHR ''+'') u
      in if versionRegex core then
           (case map parseNat (split (CHR ''.'') core) of
              [a, b, c] \<Rightarrow> Some (showVersion a b c @ suffix)
            | _ \<Rightarrow> None)
         else None)"

text \<open>
  A repository on master with a clean tree, version 1.0.0 and no tag, where every
  command succeeds, the token is set and the registry shows 1.0.1 when asked.
\<close>

definition exEnv :: env where
  "exEnv =
     \<lparr>fails = (\<lambda>c. False), failMessage = (\<lambda>c. ''Command failed''),
      viewVersionFails = (\<lambda>k. False), branchOut = ''master'' @ [nl],
      pkgFixModifies = False, pkgFixOther = exPkgFix, packageName = ''create-python-modern'', buildScript = False,
      npmrcFile = None, npmToken = Some ''npm_secret'', gitLogOut = [], stagedOut = [],
      headSha = (\<lambda>cs. ''abc1234'' @ [nl]), viewVersionOut = ''1.0.1'' @ [nl],
      viewOut = ''create-python-modern@1.0.1'', npmVersionOther = (\<lambda>k v. None),
      startClock = ''2025-09-18T10:00:00.000Z'',
      changelogClock = ''2025-09-18T10:00:05.000Z''\<rparr>"

definition exWorld :: world where
  "exWorld =
     \<lparr>manifestVersion = ''1.0.0'', treeChanged = False, tags = [], commits = [],
      remoteCommits = 0, changelogFile = Some exChangelog, reportFile = [], console = [],
      trace = []\<rparr>"

text \<open>The same on a branch that is not a release branch.\<close>

definition exEnvWrongBranch :: env where
  "exEnvWrongBranch = exEnv\<lparr>branchOut := ''develop'' @ [nl]\<rparr>"

text \<open>The same where only \<^verbatim>\<open>git push --tags\<close> fails, and where only \<^verbatim>\<open>npm test\<close> fails.\<close>

definition exEnvTagsPushFails :: env where
  "exEnvTagsPushFails = exEnv\<lparr>fails := (\<lambda>c. c = GitPushTags)\<rparr>"

definition exEnvTestFails :: env where
  "exEnvTestFails = exEnv\<lparr>fails := (\<lambda>c. c = NpmTest)\<rparr>"





text \<open>
  A repository already released: version 1.0.1, tag v1.0.1 and the release commit
  exist, the changelog has the section of 1.0.1.
\<close>

definition exWorldReleased :: world where
  "exWorldReleased =
     \<lparr>manifestVersion = ''1.0.1'', treeChanged = False, tags = [''v1.0.1''],
      commits = [''chore(release): v1.0.1''], remoteCommits = 1,
      changelogFile = Some (''# Changelog'' @ [nl, nl] @ ''## [1.0.1] - 2025-09-18'' @ [nl, nl]
        @ ''### Changed'' @ [nl] @ ''- Release automatico'' @ [nl, nl]
        @ ''## [1.0.0] - 2025-09-01'' @ [nl]),
      reportFile = [], console = [], trace = []\<rparr>"

section \<open>Properties\<close>

subsection \<open>Strings\<close>

lemma split_ne: "split sep s \<noteq> []"
  by (induction s) (auto split: list.splits)

lemma join_split: "join [sep] (split sep s) = s"
proof (induction s)
  case Nil
  show ?case by simp
next
  case (Cons c cs)
  obtain l ls where e: "split sep cs = l # ls"
    using split_ne [of sep cs] by (cases "split sep cs") auto
  with Cons show ?case by (cases ls) auto
qed









subsection \<open>The changelog\<close>








subsection \<open>Rules for actions\<close>

lemma preserves_ret: "preserves I (ret x)"
  by (simp add: preserves_def ret_def stateOf_def)

lemma preserves_throw: "preserves I (throw m)"
  by (simp add: preserves_def throw_def stateOf_def)

lemma preserves_gets: "preserves I (gets f)"
  by (simp add: preserves_def gets_def stateOf_def)

lemma preserves_modify: "(\<And>s. I s \<Longrightarrow> I (f s)) \<Longrightarrow> preserves I (modify f)"
  by (simp add: preserves_def modify_def stateOf_def)

lemma stateOf_simps [simp]: "stateOf (Ok x s) = s" "stateOf (Thrown m s) = s"
  by (simp_all add: stateOf_def)

lemma isThrown_simps [simp]: "isThrown (Ok x s) = False" "isThrown (Thrown m s) = True"
  by (simp_all add: isThrown_def)

lemma preserves_bnd:
  assumes a: "preserves I a" and f: "\<And>x. preserves I (f x)"
  shows "preserves I (bnd a f)"
  unfolding preserves_def
proof (intro allI impI)
  fix s assume "I s"
  with a have 1: "I (stateOf (a s))" by (simp add: preserves_def)
  show "I (stateOf (bnd a f s))"
  proof (cases "a s")
    case (Ok x s')
    with 1 have "I s'" by simp
    with f have "I (stateOf (f x s'))" by (simp add: preserves_def)
    with Ok show ?thesis by (simp add: bnd_def)
  next
    case (Thrown m s')
    with 1 show ?thesis by (simp add: bnd_def)
  qed
qed

lemma preserves_thn: "preserves I a \<Longrightarrow> preserves I b \<Longrightarrow> preserves I (thn a b)"
  by (simp add: thn_def preserves_bnd)

lemma preserves_ignore: "preserves I a \<Longrightarrow> preserves I (ignore a)"
  by (simp add: ignore_def preserves_bnd preserves_ret)

lemma preserves_block_nil: "preserves I (block [])"
  by (simp add: preserves_ret)

lemma preserves_block_cons:
  "preserves I a \<Longrightarrow> preserves I (block as) \<Longrightarrow> preserves I (block (a # as))"
  by (simp add: preserves_thn)

lemma preserves_block_all: "(\<And>a. a \<in> set as \<Longrightarrow> preserves I a) \<Longrightarrow> preserves I (block as)"
  by (induction as) (simp_all add: preserves_ret preserves_thn)

lemma preserves_whenThen: "preserves I a \<Longrightarrow> preserves I (whenThen c a)"
  by (simp add: whenThen_def preserves_ret)

lemma preserves_if:
  "(c \<Longrightarrow> preserves I a) \<Longrightarrow> (\<not> c \<Longrightarrow> preserves I b) \<Longrightarrow> preserves I (if c then a else b)"
  by simp

lemma preserves_let: "preserves I (f v) \<Longrightarrow> preserves I (Let v f)"
  by simp

lemma preserves_case_option:
  "(v = None \<Longrightarrow> preserves I a) \<Longrightarrow> (\<And>x. v = Some x \<Longrightarrow> preserves I (f x))
   \<Longrightarrow> preserves I (case v of None \<Rightarrow> a | Some x \<Rightarrow> f x)"
  by (cases v) simp_all

lemma preserves_tryCatch:
  assumes a: "preserves I a" and h: "\<And>m. preserves I (h m)"
  shows "preserves I (tryCatch a h)"
  unfolding preserves_def
proof (intro allI impI)
  fix s assume "I s"
  with a have 1: "I (stateOf (a s))" by (simp add: preserves_def)
  show "I (stateOf (tryCatch a h s))"
  proof (cases "a s")
    case (Ok x s')
    with 1 show ?thesis by (simp add: tryCatch_def)
  next
    case (Thrown m s')
    with 1 have "I s'" by simp
    with h have "I (stateOf (h m s'))" by (simp add: preserves_def)
    with Thrown show ?thesis by (simp add: tryCatch_def)
  qed
qed

lemma preserves_execSync:
  assumes "\<And>s. I s \<Longrightarrow> I (s\<lparr>wld := (wld s)\<lparr>trace := trace (wld s) @ [c]\<rparr>\<rparr>)"
    and "\<And>s. I s \<Longrightarrow> \<not> cmdFails e c (wld s) \<Longrightarrow>
           I (s\<lparr>wld := effect e c ((wld s)\<lparr>trace := trace (wld s) @ [c]\<rparr>)\<rparr>)"
  shows "preserves I (execSync e c)"
  using assms by (simp add: preserves_def execSync_def Let_def)

lemmas preserves_intros =
  preserves_ret preserves_throw preserves_gets preserves_bnd preserves_thn preserves_ignore
  preserves_block_nil preserves_block_cons preserves_whenThen preserves_if preserves_let
  preserves_case_option preserves_tryCatch

lemmas action_defs =
  log_def warn_def error_def printLine_def pushIssue_def pushSolution_def pushRegistryUrl_def
  setVersion_def writeChangelog_def testsFailed_def commitRelease_def recordHead_def readVersion_def

lemmas upd_defs = updWorld_def updManager_def updReport_def


lemmas step_defs =
  preVerification_def dependenciesAndTests_def build_def versioning_def updateChangelog_def
  commitAndTag_def push_def publishToNpm_def publishToGitHub_def verification_def
  generateReport_def

lemmas step_p2_defs =
  preVerification_p2_def dependenciesAndTests_p2_def build_p2_def versioning_p2_def
  commitAndTag_p2_def push_p2_def publishToNpm_p2_def publishToGitHub_p2_def verification_p2_def

lemma noPublish_steps:
  "preserves noPublish (preVerification e)"
  "preserves noPublish (dependenciesAndTests e)"
  "preserves noPublish (build e)"
  "preserves noPublish (versioning e arg)"
  "preserves noPublish (updateChangelog e)"
  "preserves noPublish (commitAndTag e)"
  "preserves noPublish (push e)"
  "preserves noPublish generateReport"
  "preserves noPublish (printLine l)"
  "preserves noPublish (error l)"
  "preserves noPublish (preVerification_p2 e)"
  "preserves noPublish (dependenciesAndTests_p2 e)"
  "preserves noPublish (build_p2 e)"
  "preserves noPublish (versioning_p2 e arg)"
  "preserves noPublish (commitAndTag_p2 e)"
  "preserves noPublish (push_p2 e)"
  unfolding step_defs step_p2_defs action_defs
  by (auto intro!: preserves_intros preserves_modify preserves_execSync
        simp: noPublish_def upd_defs effect_def split: option.splits)

lemma wp_ret: "wp (ret x) Q R = Q x"
  by (rule ext) (simp add: wp_def ret_def)

lemma wp_throw: "wp (throw m) Q R = R m"
  by (rule ext) (simp add: wp_def throw_def)

lemma wp_modify: "wp (modify f) Q R = (\<lambda>s. Q () (f s))"
  by (rule ext) (simp add: wp_def modify_def)

lemma wp_gets: "wp (gets f) Q R = (\<lambda>s. Q (f s) s)"
  by (rule ext) (simp add: wp_def gets_def)

lemma wp_bnd: "wp (bnd a f) Q R = wp a (\<lambda>x. wp (f x) Q R) R"
  by (rule ext) (simp add: wp_def bnd_def split: result.splits)

lemma wp_thn: "wp (thn a b) Q R = wp a (\<lambda>x. wp b Q R) R"
  by (simp add: thn_def wp_bnd)

lemma wp_ignore: "wp (ignore a) Q R = wp a (\<lambda>x. Q ()) R"
  by (simp add: ignore_def wp_bnd wp_ret)

lemma wp_block_nil: "wp (block []) Q R = Q ()"
  by (simp add: wp_ret)

lemma wp_block_cons: "wp (block (a # as)) Q R = wp a (\<lambda>x. wp (block as) Q R) R"
  by (simp add: wp_thn)

lemma wp_whenThen: "wp (whenThen c a) Q R = (if c then wp a Q R else Q ())"
  by (simp add: whenThen_def wp_ret)

lemma wp_tryCatch: "wp (tryCatch a h) Q R = wp a Q (\<lambda>m. wp (h m) Q R)"
  by (rule ext) (simp add: wp_def tryCatch_def split: result.splits)

lemma wp_execSync:
  "wp (execSync e c) Q R =
     (\<lambda>s. if cmdFails e c (wld s)
      then R (failMessage e c) (s\<lparr>wld := (wld s)\<lparr>trace := trace (wld s) @ [c]\<rparr>\<rparr>)
      else Q (stdout e c (wld s))
             (s\<lparr>wld := effect e c ((wld s)\<lparr>trace := trace (wld s) @ [c]\<rparr>)\<rparr>))"
  by (rule ext) (simp add: wp_def execSync_def Let_def)

lemma wp_if: "wp (if c then a else b) Q R = (if c then wp a Q R else wp b Q R)"
  by simp

lemma wp_case_option:
  "wp (case v of None \<Rightarrow> a | Some x \<Rightarrow> f x) Q R
     = (case v of None \<Rightarrow> wp a Q R | Some x \<Rightarrow> wp (f x) Q R)"
  by (cases v) simp_all

lemmas wp_simps =
  wp_ret wp_throw wp_modify wp_gets wp_bnd wp_thn wp_ignore wp_block_nil wp_block_cons
  wp_whenThen wp_tryCatch wp_execSync wp_if wp_case_option

lemma wp_result: "P (a s) = wp a (\<lambda>x s'. P (Ok x s')) (\<lambda>m s'. P (Thrown m s')) s"
  by (cases "a s") (simp_all add: wp_def)

lemma wp_mono:
  assumes "wp a Q R s" and "\<And>x s'. Q x s' \<Longrightarrow> Q' x s'" and "\<And>m s'. R m s' \<Longrightarrow> R' m s'"
  shows "wp a Q' R' s"
  using assms by (cases "a s") (simp_all add: wp_def)

lemma wp_preserves:
  assumes "preserves I a" and "I s"
  shows "wp a (\<lambda>x. I) (\<lambda>m. I) s"
proof -
  from assms have "I (stateOf (a s))" by (simp add: preserves_def)
  then show ?thesis by (cases "a s") (simp_all add: wp_def)
qed

lemma holdsD: "holds P a Q R \<Longrightarrow> P s \<Longrightarrow> wp a Q R s"
  by (simp add: holds_def)

lemma holds_block_pres:
  assumes a: "preserves I a" and r: "holds I (block as) Q (\<lambda>m. I)"
  shows "holds I (block (a # as)) Q (\<lambda>m. I)"
  unfolding holds_def wp_block_cons
proof (intro allI impI)
  fix s assume "I s"
  from wp_preserves [OF a this]
  show "wp a (\<lambda>x. wp (block as) Q (\<lambda>m. I)) (\<lambda>m. I) s"
    by (rule wp_mono) (simp_all add: holdsD [OF r])
qed

lemma holds_block_stop:
  assumes a: "holds I a (\<lambda>x s. False) (\<lambda>m. I)"
  shows "holds I (block (a # as)) (\<lambda>x s. False) (\<lambda>m. I)"
  unfolding holds_def wp_block_cons
proof (intro allI impI)
  fix s assume "I s"
  from holdsD [OF a this]
  show "wp a (\<lambda>x. wp (block as) (\<lambda>x s. False) (\<lambda>m. I)) (\<lambda>m. I) s"
    by (rule wp_mono) simp_all
qed

lemma publishToNpm_no_token:
  "tokenMissing e \<Longrightarrow> holds noPublish (publishToNpm e) (\<lambda>x s. False) (\<lambda>m. noPublish)"
  "tokenMissing e \<Longrightarrow> holds noPublish (publishToNpm_p2 e) (\<lambda>x s. False) (\<lambda>m. noPublish)"
  by (simp_all add: holds_def publishToNpm_def publishToNpm_p2_def wp_simps action_defs
        noPublish_def upd_defs)


lemma try_no_token:
  assumes "tokenMissing e"
  shows "holds noPublish
     (block (printLine a1 # preVerification e # printLine a2 # dependenciesAndTests e
        # printLine a3 # build e # printLine a4 # versioning e arg # printLine a5
        # updateChangelog e # printLine a6 # commitAndTag e # printLine a7 # push e
        # printLine a8 # publishToNpm e # rest)) (\<lambda>x s. False) (\<lambda>m. noPublish)"
  by (intro holds_block_pres noPublish_steps holds_block_stop publishToNpm_no_token assms)

lemma try_p2_no_token:
  assumes "tokenMissing e"
  shows "holds noPublish
     (block (preVerification_p2 e # dependenciesAndTests_p2 e # build_p2 e
        # versioning_p2 e arg # updateChangelog e # commitAndTag_p2 e # push_p2 e
        # publishToNpm_p2 e # rest)) (\<lambda>x s. False) (\<lambda>m. noPublish)"
  by (intro holds_block_pres noPublish_steps holds_block_stop publishToNpm_no_token assms)


lemma holds_tryCatch:
  assumes a: "holds P a Q M" and h: "\<And>m. holds (M m) (h m) Q R"
  shows "holds P (tryCatch a h) Q R"
  unfolding holds_def wp_tryCatch
proof (intro allI impI)
  fix s assume "P s"
  from holdsD [OF a this] show "wp a Q (\<lambda>m. wp (h m) Q R) s"
    by (rule wp_mono) (simp_all add: holdsD [OF h])
qed

lemma holds_block_cons:
  assumes a: "holds P a (\<lambda>x. M) R" and r: "holds M (block as) Q R"
  shows "holds P (block (a # as)) Q R"
  unfolding holds_def wp_block_cons
proof (intro allI impI)
  fix s assume "P s"
  from holdsD [OF a this] show "wp a (\<lambda>x. wp (block as) Q R) R s"
    by (rule wp_mono) (simp_all add: holdsD [OF r])
qed

lemma holds_throw: "(\<And>s. P s \<Longrightarrow> R m s) \<Longrightarrow> holds P (throw m) Q R"
  by (simp add: holds_def wp_throw)

lemma holds_weaken:
  assumes "holds P a Q R" and "\<And>s. P' s \<Longrightarrow> P s" and "\<And>x s. Q x s \<Longrightarrow> Q' x s"
    and "\<And>m s. R m s \<Longrightarrow> R' m s"
  shows "holds P' a Q' R'"
  unfolding holds_def
proof (intro allI impI)
  fix s assume "P' s"
  then have "P s" by (rule assms(2))
  from holdsD [OF assms(1) this] show "wp a Q' R' s"
    by (rule wp_mono) (simp_all add: assms)
qed

lemma holds_result:
  assumes "holds P a Q R" and "P s"
  shows "case a s of Ok x s' \<Rightarrow> Q x s' | Thrown m s' \<Rightarrow> R m s'"
  using holdsD [OF assms] by (simp add: wp_def)

lemma run_no_token:
  assumes "tokenMissing e" and "noPublish s"
  shows "isThrown (run e arg s) \<and> noPublish (stateOf (run e arg s))"
proof -
  have "holds noPublish (run e arg) (\<lambda>x s. False) (\<lambda>m. noPublish)"
    unfolding run_def Let_def
    by (intro holds_block_pres holds_block_stop holds_tryCatch [where M = "\<lambda>m. noPublish"]
          noPublish_steps try_no_token assms(1) holds_throw)
  from holds_result [OF this assms(2)] show ?thesis
    by (cases "run e arg s") simp_all
qed

lemma run_p2_no_token:
  assumes "tokenMissing e" and "noPublish s"
  shows "isThrown (run_p2 e arg s) \<and> noPublish (stateOf (run_p2 e arg s))"
proof -
  have "holds noPublish (run_p2 e arg) (\<lambda>x s. False) (\<lambda>m. noPublish)"
    unfolding run_p2_def Let_def
    by (intro holds_block_pres holds_block_stop holds_tryCatch [where M = "\<lambda>m. noPublish"]
          noPublish_steps try_p2_no_token assms(1) holds_throw)
  from holds_result [OF this assms(2)] show ?thesis
    by (cases "run_p2 e arg s") simp_all
qed

lemma pkgFixVersion_token: "pkgFixVersion (e\<lparr>npmToken := t\<rparr>) = pkgFixVersion e"
  by (intro ext) (simp add: pkgFixVersion_def)

lemma fixedVersion_token: "fixedVersion (e\<lparr>npmToken := t\<rparr>) = fixedVersion e"
  by (intro ext) (simp add: fixedVersion_def pkgFixVersion_token)

lemmas pkgFix_token = pkgFixVersion_token fixedVersion_token

lemma execSync_token: "execSync (e\<lparr>npmToken := t\<rparr>) = execSync e"
  by (intro ext)
     (simp add: execSync_def cmdFails_def stdout_def effect_def bump_def pkgFix_token Let_def
        cong: cmd.case_cong list.case_cong option.case_cong if_cong)


lemma viewLoop_token: "viewLoop (e\<lparr>npmToken := t\<rparr>) n = viewLoop e n"
  by (induction n) (simp_all add: execSync_token cong: if_cong)

lemma steps_token:
  "preVerification (e\<lparr>npmToken := t\<rparr>) = preVerification e"
  "dependenciesAndTests (e\<lparr>npmToken := t\<rparr>) = dependenciesAndTests e"
  "build (e\<lparr>npmToken := t\<rparr>) = build e"
  "versioning (e\<lparr>npmToken := t\<rparr>) = versioning e"
  "updateChangelog (e\<lparr>npmToken := t\<rparr>) = updateChangelog e"
  "commitAndTag (e\<lparr>npmToken := t\<rparr>) = commitAndTag e"
  "push (e\<lparr>npmToken := t\<rparr>) = push e"
  "publishToGitHub (e\<lparr>npmToken := t\<rparr>) = publishToGitHub e"
  "verification (e\<lparr>npmToken := t\<rparr>) = verification e"
  "preVerification_p2 (e\<lparr>npmToken := t\<rparr>) = preVerification_p2 e"
  "dependenciesAndTests_p2 (e\<lparr>npmToken := t\<rparr>) = dependenciesAndTests_p2 e"
  "build_p2 (e\<lparr>npmToken := t\<rparr>) = build_p2 e"
  "versioning_p2 (e\<lparr>npmToken := t\<rparr>) = versioning_p2 e"
  "commitAndTag_p2 (e\<lparr>npmToken := t\<rparr>) = commitAndTag_p2 e"
  "push_p2 (e\<lparr>npmToken := t\<rparr>) = push_p2 e"
  "publishToGitHub_p2 (e\<lparr>npmToken := t\<rparr>) = publishToGitHub_p2 e"
  "verification_p2 (e\<lparr>npmToken := t\<rparr>) = verification_p2 e"
  "newManager (e\<lparr>npmToken := t\<rparr>) = newManager e"
  unfolding step_defs step_p2_defs commitRelease_def recordHead_def readVersion_def
    newManager_def
  by (simp_all add: execSync_token viewLoop_token del: append.simps
        cong: if_cong option.case_cong)

lemma publish_token:
  "t1 \<noteq> [] \<Longrightarrow> t2 \<noteq> [] \<Longrightarrow>
     publishToNpm (e\<lparr>npmToken := Some t1\<rparr>) = publishToNpm (e\<lparr>npmToken := Some t2\<rparr>)"
  "t1 \<noteq> [] \<Longrightarrow> t2 \<noteq> [] \<Longrightarrow>
     publishToNpm_p2 (e\<lparr>npmToken := Some t1\<rparr>) = publishToNpm_p2 (e\<lparr>npmToken := Some t2\<rparr>)"
  by (simp_all add: publishToNpm_def publishToNpm_p2_def tokenMissing_def execSync_token)

lemma run_token:
  assumes "t1 \<noteq> []" and "t2 \<noteq> []"
  shows "run (e\<lparr>npmToken := Some t1\<rparr>) = run (e\<lparr>npmToken := Some t2\<rparr>)"
    and "run_p2 (e\<lparr>npmToken := Some t1\<rparr>) = run_p2 (e\<lparr>npmToken := Some t2\<rparr>)"
  unfolding run_def run_p2_def
  by (simp_all only: steps_token publish_token [OF assms])

lemma main_token:
  assumes "t1 \<noteq> []" and "t2 \<noteq> []"
  shows "main (e\<lparr>npmToken := Some t1\<rparr>) = main (e\<lparr>npmToken := Some t2\<rparr>)"
    and "main_p2 (e\<lparr>npmToken := Some t1\<rparr>) = main_p2 (e\<lparr>npmToken := Some t2\<rparr>)"
  unfolding main_def main_p2_def
  by (simp_all only: steps_token run_token [OF assms])

subsection \<open>The publish token\<close>

text \<open>
  C7. In both files: when \<^verbatim>\<open>NPM_TOKEN\<close> is unset or empty, \<^verbatim>\<open>run\<close> throws and no
  publish command is run; and the whole result of the program (exit code, console
  output, the report written, every field of the state) is the same for any two
  non-empty values of the token, so the value shows nowhere.
\<close>

theorem token_absent_no_publish_and_token_not_shown:
  "(tokenMissing e \<and> noPublish s \<longrightarrow>
      isThrown (run e arg s) \<and> noPublish (stateOf (run e arg s))
      \<and> isThrown (run_p2 e arg s) \<and> noPublish (stateOf (run_p2 e arg s)))
   \<and> (t1 \<noteq> [] \<and> t2 \<noteq> [] \<longrightarrow>
      main (e\<lparr>npmToken := Some t1\<rparr>) argv w = main (e\<lparr>npmToken := Some t2\<rparr>) argv w
      \<and> main_p2 (e\<lparr>npmToken := Some t1\<rparr>) argv w = main_p2 (e\<lparr>npmToken := Some t2\<rparr>) argv w)"
  using run_no_token [of e s arg] run_p2_no_token [of e s arg] main_token [of t1 t2 e]
  by simp

lemma exEnv_no_token: "tokenMissing (exEnv\<lparr>npmToken := None\<rparr>)"
  by (simp add: tokenMissing_def)

lemma start_noPublish: "noPublish (start e exWorld)"
  by (simp add: noPublish_def start_def exWorld_def)

theorem token_absent_no_publish_and_token_not_shown_witness:
  "tokenMissing (exEnv\<lparr>npmToken := None\<rparr>)
   \<and> noPublish (start (exEnv\<lparr>npmToken := None\<rparr>) exWorld)
   \<and> isThrown (run (exEnv\<lparr>npmToken := None\<rparr>) None (start (exEnv\<lparr>npmToken := None\<rparr>) exWorld))
   \<and> noPublish (stateOf (run (exEnv\<lparr>npmToken := None\<rparr>) None
                            (start (exEnv\<lparr>npmToken := None\<rparr>) exWorld)))
   \<and> isThrown (run_p2 (exEnv\<lparr>npmToken := None\<rparr>) None
                 (start (exEnv\<lparr>npmToken := None\<rparr>) exWorld))
   \<and> noPublish (stateOf (run_p2 (exEnv\<lparr>npmToken := None\<rparr>) None
                            (start (exEnv\<lparr>npmToken := None\<rparr>) exWorld)))
   \<and> ''npm_A'' \<noteq> [] \<and> ''npm_B'' \<noteq> []
   \<and> main (exEnv\<lparr>npmToken := Some ''npm_A''\<rparr>) [''node'', ''release.js''] exWorld
       = main (exEnv\<lparr>npmToken := Some ''npm_B''\<rparr>) [''node'', ''release.js''] exWorld
   \<and> main_p2 (exEnv\<lparr>npmToken := Some ''npm_A''\<rparr>) [''node'', ''release.js''] exWorld
       = main_p2 (exEnv\<lparr>npmToken := Some ''npm_B''\<rparr>) [''node'', ''release.js''] exWorld"
  using token_absent_no_publish_and_token_not_shown
          [of "exEnv\<lparr>npmToken := None\<rparr>" "start (exEnv\<lparr>npmToken := None\<rparr>) exWorld" None
              "''npm_A''" "''npm_B''" "[''node'', ''release.js'']" exWorld]
        exEnv_no_token start_noPublish
  by simp

subsection \<open>The report\<close>

lemma holds_block_prefix:
  "(\<And>a. a \<in> set as \<Longrightarrow> preserves I a) \<Longrightarrow> holds I (block rest) Q (\<lambda>m. I)
   \<Longrightarrow> holds I (block (as @ rest)) Q (\<lambda>m. I)"
proof (induction as)
  case Nil
  then show ?case by simp
next
  case (Cons a as)
  have "holds I (block (a # (as @ rest))) Q (\<lambda>m. I)"
    by (rule holds_block_pres) (simp_all add: Cons)
  then show ?case by simp
qed





lemma holds_block_single: "holds P a Q R \<Longrightarrow> holds P (block [a]) Q R"
  by (simp add: holds_def wp_simps)

lemma holds_pres: "preserves I a \<Longrightarrow> holds I a (\<lambda>x. I) R' \<Longrightarrow> holds I a (\<lambda>x. I) R'"
  by simp











subsection \<open>Symbolic execution\<close>

lemma effect_fields:
  "trace (effect e c w) = trace w"
  "console (effect e c w) = console w"
  "reportFile (effect e c w) = reportFile w"
  "changelogFile (effect e c w) = changelogFile w"
  by (simp_all add: effect_def split: cmd.splits option.splits)

lemma logged_fields [simp]:
  "mgr (logged l s) = mgr s"
  "console (wld (logged l s)) = console (wld s) @ [l]"
  "trace (wld (logged l s)) = trace (wld s)"
  "manifestVersion (wld (logged l s)) = manifestVersion (wld s)"
  "treeChanged (wld (logged l s)) = treeChanged (wld s)"
  "tags (wld (logged l s)) = tags (wld s)"
  "commits (wld (logged l s)) = commits (wld s)"
  "remoteCommits (wld (logged l s)) = remoteCommits (wld s)"
  "changelogFile (wld (logged l s)) = changelogFile (wld s)"
  "reportFile (wld (logged l s)) = reportFile (wld s)"
  by (simp_all add: logged_def upd_defs)

lemma warned_fields [simp]:
  "warnings (mgr (warned l s)) = warnings (mgr s) @ [l]"
  "errors (mgr (warned l s)) = errors (mgr s)"
  "currentBranch (mgr (warned l s)) = currentBranch (mgr s)"
  "report (mgr (warned l s)) = report (mgr s)"
  "console (wld (warned l s)) = console (wld s) @ [l]"
  "trace (wld (warned l s)) = trace (wld s)"
  "manifestVersion (wld (warned l s)) = manifestVersion (wld s)"
  "treeChanged (wld (warned l s)) = treeChanged (wld s)"
  "tags (wld (warned l s)) = tags (wld s)"
  "commits (wld (warned l s)) = commits (wld s)"
  "remoteCommits (wld (warned l s)) = remoteCommits (wld s)"
  "changelogFile (wld (warned l s)) = changelogFile (wld s)"
  "reportFile (wld (warned l s)) = reportFile (wld s)"
  by (simp_all add: warned_def logged_def upd_defs)

lemma ran_fields [simp]:
  "mgr (ran c s) = mgr s"
  "trace (wld (ran c s)) = trace (wld s) @ [c]"
  "console (wld (ran c s)) = console (wld s)"
  "manifestVersion (wld (ran c s)) = manifestVersion (wld s)"
  "treeChanged (wld (ran c s)) = treeChanged (wld s)"
  "tags (wld (ran c s)) = tags (wld s)"
  "commits (wld (ran c s)) = commits (wld s)"
  "remoteCommits (wld (ran c s)) = remoteCommits (wld s)"
  "changelogFile (wld (ran c s)) = changelogFile (wld s)"
  "reportFile (wld (ran c s)) = reportFile (wld s)"
  by (simp_all add: ran_def)

lemma finished_fields [simp]:
  "mgr (finished e c s) = mgr s"
  "trace (wld (finished e c s)) = trace (wld s) @ [c]"
  "console (wld (finished e c s)) = console (wld s)"
  "reportFile (wld (finished e c s)) = reportFile (wld s)"
  "changelogFile (wld (finished e c s)) = changelogFile (wld s)"
  "manifestVersion (wld (finished e c s)) = manifestVersion (effect e c (wld s))"
  "treeChanged (wld (finished e c s)) = treeChanged (effect e c (wld s))"
  "tags (wld (finished e c s)) = tags (effect e c (wld s))"
  "commits (wld (finished e c s)) = commits (effect e c (wld s))"
  "remoteCommits (wld (finished e c s)) = remoteCommits (effect e c (wld s))"
  by (simp_all add: finished_def effect_def split: cmd.splits option.splits)

lemma wp_log: "wp (log l) Q R = (\<lambda>s. Q () (logged l s))"
  by (simp add: log_def printLine_def wp_simps logged_def)

lemma wp_printLine: "wp (printLine l) Q R = (\<lambda>s. Q () (logged l s))"
  by (simp add: printLine_def wp_simps logged_def)

lemma wp_warn: "wp (warn l) Q R = (\<lambda>s. Q () (warned l s))"
  by (simp add: warn_def printLine_def wp_simps warned_def logged_def)

lemma wp_exec:
  "wp (execSync e c) Q R =
     (\<lambda>s. if cmdFails e c (wld s) then R (failMessage e c) (ran c s)
          else Q (stdout e c (wld s)) (finished e c s))"
  by (simp add: wp_execSync ran_def finished_def)

lemma log_cong: "log l = log l"
  by simp

lemma printLine_cong: "printLine l = printLine l"
  by simp

lemma warn_cong: "warn l = warn l"
  by simp

lemma throw_cong: "throw m = throw m"
  by simp

lemma logged_cong: "s = s' \<Longrightarrow> logged l s = logged l s'"
  by simp

lemma warned_cong: "s = s' \<Longrightarrow> warned l s = warned l s'"
  by simp

lemmas sym_congs = log_cong printLine_cong warn_cong throw_cong logged_cong warned_cong

lemmas sym_simps =
  wp_ret wp_throw wp_modify wp_gets wp_bnd wp_thn wp_ignore wp_block_nil wp_block_cons
  wp_whenThen wp_tryCatch wp_exec wp_if wp_case_option wp_log wp_printLine wp_warn
  pushIssue_def pushSolution_def pushRegistryUrl_def setVersion_def writeChangelog_def
  testsFailed_def commitRelease_def recordHead_def readVersion_def error_def
  upd_defs Let_def cmdFails_def effect_def


subsection \<open>Outputs of the commands\<close>

lemma trim_eq_Nil: "(trim s = []) = (\<forall>c \<in> set s. isSpace c)"
proof
  assume "trim s = []"
  then have "dropWhile isSpace (rev (dropWhile isSpace s)) = []"
    unfolding trim_def by (simp del: dropWhile_eq_Nil_conv)
  then have all: "\<forall>c \<in> set (dropWhile isSpace s). isSpace c"
    by (simp add: dropWhile_eq_Nil_conv)
  have "dropWhile isSpace s = []"
  proof (cases "dropWhile isSpace s")
    case (Cons x xs)
    with hd_dropWhile [of isSpace s] have "\<not> isSpace x" by simp
    moreover from all Cons have "isSpace x" by simp
    ultimately show ?thesis by simp
  qed simp
  then show "\<forall>c \<in> set s. isSpace c" by (simp only: dropWhile_eq_Nil_conv)
next
  assume "\<forall>c \<in> set s. isSpace c"
  then have "dropWhile isSpace s = []" by (simp add: dropWhile_eq_Nil_conv)
  then show "trim s = []" unfolding trim_def by (simp del: dropWhile_eq_Nil_conv)
qed

lemma trim_nonblank: "c \<in> set s \<Longrightarrow> \<not> isSpace c \<Longrightarrow> trim s \<noteq> []"
  by (auto simp: trim_eq_Nil)

lemma trim_quoted: "trim (CHR 0x22 # v @ [CHR 0x22, nl]) = CHR 0x22 # v @ [CHR 0x22]"
  by (simp add: trim_def isSpace_def nl_def)

lemma quote_not_digit: "\<not> isDigit (CHR 0x22)"
  by (simp add: isDigit_def)

lemma digits_chars: "digits a \<Longrightarrow> CHR 0x22 \<notin> set a"
  using quote_not_digit by (auto simp: digits_def list_all_iff)

lemma versionRegex_no_quote:
  assumes "versionRegex v"
  shows "CHR 0x22 \<notin> set v"
proof -
  from assms obtain a b c where s: "split (CHR ''.'') v = [a, b, c]"
    and d: "digits a" "digits b" "digits c"
    by (auto simp: versionRegex_def split: list.splits)
  have "join ''.'' (split (CHR ''.'') v) = v" by (rule join_split)
  then have v: "v = a @ ''.'' @ b @ ''.'' @ c" by (simp add: s)
  have "CHR 0x22 \<notin> set a" "CHR 0x22 \<notin> set b" "CHR 0x22 \<notin> set c"
    using d by (simp_all add: digits_chars)
  then show ?thesis by (subst v) simp
qed

lemma stripQuotes_quoted:
  "CHR 0x22 \<notin> set v \<Longrightarrow> stripQuotes (CHR 0x22 # v @ [CHR 0x22]) = v"
  by (auto simp: stripQuotes_def filter_id_conv)

lemma stdout_version:
  "versionRegex (manifestVersion w) \<Longrightarrow>
   stripQuotes (trim (stdout e NpmPkgGetVersion w)) = manifestVersion w"
  by (simp add: stdout_def trim_quoted stripQuotes_quoted versionRegex_no_quote)

lemma not_space_M: "\<not> isSpace (CHR ''M'')" "\<not> isSpace (CHR ''v'')" "\<not> isSpace (CHR ''0'')"
  by (simp_all add: isSpace_def)

lemma stdout_status [simp]: "(trim (stdout e GitStatus w) = []) = (\<not> treeChanged w)"
proof (cases "treeChanged w")
  case True
  have "trim ('' M package.json'' @ [nl]) \<noteq> []"
    by (rule trim_nonblank [of "CHR ''M''"]) (simp_all add: not_space_M)
  with True show ?thesis by (simp add: stdout_def)
next
  case False
  then show ?thesis by (simp add: stdout_def trim_def)
qed

lemma isSpace_nl [simp]: "isSpace nl"
  by (simp add: isSpace_def nl_def)

lemma trim_lines_Nil:
  "(trim (concat (map (\<lambda>t. t @ [nl]) ts)) = []) = (\<forall>t \<in> set ts. \<forall>c \<in> set t. isSpace c)"
  by (simp add: trim_eq_Nil ball_Un)

lemma stdout_tag_list [simp]:
  "(trim (stdout e (GitTagList (CHR ''v'' # x)) w) = []) = (CHR ''v'' # x \<notin> set (tags w))"
proof -
  let ?p = "CHR ''v'' # x"
  have "(\<forall>t \<in> set (filter (\<lambda>t. t = ?p) (tags w)). \<forall>c \<in> set t. isSpace c)
          = (?p \<notin> set (tags w))"
  proof
    assume a: "\<forall>t \<in> set (filter (\<lambda>t. t = ?p) (tags w)). \<forall>c \<in> set t. isSpace c"
    show "?p \<notin> set (tags w)"
    proof
      assume "?p \<in> set (tags w)"
      then have "?p \<in> set (filter (\<lambda>t. t = ?p) (tags w))" by simp
      with a have "\<forall>c \<in> set ?p. isSpace c" by blast
      then have "isSpace (CHR ''v'')" by simp
      then show False by (simp add: not_space_M)
    qed
  next
    assume "?p \<notin> set (tags w)"
    then have "filter (\<lambda>t. t = ?p) (tags w) = []"
      by (auto simp: filter_empty_conv)
    then show "\<forall>t \<in> set (filter (\<lambda>t. t = ?p) (tags w)). \<forall>c \<in> set t. isSpace c"
      by (simp only: list.set ball_empty)
  qed
  then show ?thesis by (simp only: stdout_def cmd.case trim_lines_Nil)
qed

lemma stdout_rev_list [simp]:
  "(trim (stdout e GitRevList w) = []) = (length (commits w) \<le> remoteCommits w)"
proof (cases "length (commits w) \<le> remoteCommits w")
  case True
  then show ?thesis by (simp add: stdout_def trim_def)
next
  case False
  then obtain k where k: "length (commits w) - remoteCommits w = Suc k"
    by (cases "length (commits w) - remoteCommits w") auto
  have "trim (concat (replicate (Suc k) (''0000000'' @ [nl]))) \<noteq> []"
    by (rule trim_nonblank [of "CHR ''0''"]) (simp_all add: not_space_M)
  with False k show ?thesis by (simp add: stdout_def)
qed

lemma stdout_simps [simp]:
  "stdout e GitRevParseBranch w = branchOut e"
  "stdout e (GitLog t) w = gitLogOut e"
  "stdout e GitDiffCached w = stagedOut e"
  "stdout e GitRevParseHead w = headSha e (commits w)"
  "stdout e (NpmViewVersion n) w = viewVersionOut e"
  "stdout e (NpmView n) w = viewOut e"
  by (simp_all add: stdout_def)




lemma holds_printLine_keeps:
  "(\<And>s l. P s \<Longrightarrow> P (logged l s)) \<Longrightarrow> holds P (printLine l) (\<lambda>x. P) R"
  by (simp add: holds_def wp_printLine)

subsection \<open>Failures of the first step\<close>










subsection \<open>Runs on a version that is already tagged\<close>

text \<open>\<^verbatim>\<open>npm pkg fix\<close> accepts a version in canonical form and leaves it as it is.\<close>

lemma pkgFixVersion_canonical:
  assumes "canonical v"
  shows "pkgFixVersion e v = Some v" and "fixedVersion e v = v"
  using assms by (simp_all add: pkgFixVersion_def fixedVersion_def)

lemma holds_block_keep:
  assumes a: "preserves I a" and r: "holds I (block as) Q R" and i: "\<And>m s. I s \<Longrightarrow> R m s"
  shows "holds I (block (a # as)) Q R"
  unfolding holds_def wp_block_cons
proof (intro allI impI)
  fix s assume "I s"
  from wp_preserves [OF a this]
  show "wp a (\<lambda>x. wp (block as) Q R) R s"
    by (rule wp_mono) (simp_all add: holdsD [OF r] i)
qed

lemma holds_block_nil: "(\<And>s. P s \<Longrightarrow> Q () s) \<Longrightarrow> holds P (block []) Q R"
  by (simp add: holds_def wp_simps)

lemma preserves_conj_pure: "preserves I a \<Longrightarrow> preserves (\<lambda>s. I s \<and> C) a"
  by (simp add: preserves_def)

lemma viewLoop_keeps: "preserves (keeps v ts) (viewLoop e n)"
  by (induction n)
     (auto intro!: preserves_intros preserves_modify preserves_execSync
        simp: keeps_def upd_defs effect_def action_defs)

lemma keeps_steps:
  "preserves (keeps v ts) (dependenciesAndTests e)"
  "preserves (keeps v ts) (build e)"
  "preserves (keeps v ts) (updateChangelog e)"
  "preserves (keeps v ts) (push e)"
  "preserves (keeps v ts) (publishToNpm e)"
  "preserves (keeps v ts) (publishToGitHub e)"
  "preserves (keeps v ts) (verification e)"
  "preserves (keeps v ts) (printLine l)"
  "preserves (keeps v ts) (log l)"
  "preserves (keeps v ts) (error l)"
  "preserves (keeps v ts) generateReport"
  "preserves (keeps v ts) (dependenciesAndTests_p2 e)"
  "preserves (keeps v ts) (build_p2 e)"
  "preserves (keeps v ts) (push_p2 e)"
  "preserves (keeps v ts) (publishToNpm_p2 e)"
  "preserves (keeps v ts) (publishToGitHub_p2 e)"
  "preserves (keeps v ts) (verification_p2 e)"
  unfolding step_defs step_p2_defs action_defs
  by (auto intro!: preserves_intros preserves_modify preserves_execSync viewLoop_keeps
        simp: keeps_def upd_defs effect_def split: option.splits)

lemma keeps_version_steps:
  "preserves (\<lambda>s. keeps v ts s \<and> version (report (mgr s)) = Some v) (updateChangelog e)"
  "preserves (\<lambda>s. keeps v ts s \<and> version (report (mgr s)) = Some v) (printLine l)"
  unfolding step_defs action_defs
  by (auto intro!: preserves_intros preserves_modify preserves_execSync
        simp: keeps_def upd_defs effect_def split: option.splits)

lemma preVerification_keeps:
  assumes "fixedVersion e v = v"
  shows "holds (keeps v ts) (preVerification e) (\<lambda>x s. keeps v ts s \<and> versionRegex v)
     (\<lambda>m. keeps v ts)"
    and "holds (keeps v ts) (preVerification_p2 e) (\<lambda>x s. keeps v ts s \<and> versionRegex v)
     (\<lambda>m. keeps v ts)"
  using assms unfolding holds_def
  by (auto simp: preVerification_def preVerification_p2_def sym_simps keeps_def
        cong: sym_congs)

lemma versioning_keeps:
  assumes "CHR ''v'' # v \<in> set ts"
  shows "holds (\<lambda>s. keeps v ts s \<and> versionRegex v) (versioning_p2 e a)
     (\<lambda>x s. keeps v ts s \<and> version (report (mgr s)) = Some v) (\<lambda>m. keeps v ts)"
    and "\<not> fails e (GitTagList (CHR ''v'' # v)) \<Longrightarrow>
      holds (\<lambda>s. keeps v ts s \<and> versionRegex v) (versioning e a)
        (\<lambda>x s. keeps v ts s \<and> version (report (mgr s)) = Some v) (\<lambda>m. keeps v ts)"
  using assms unfolding holds_def
  by (auto simp: versioning_def versioning_p2_def sym_simps keeps_def stdout_version
        cong: sym_congs)

lemma commitAndTag_keeps:
  assumes "CHR ''v'' # v \<in> set ts"
  shows "holds (\<lambda>s. keeps v ts s \<and> version (report (mgr s)) = Some v) (commitAndTag_p2 e)
     (\<lambda>x. keeps v ts) (\<lambda>m. keeps v ts)"
    and "\<not> fails e (GitTagList (CHR ''v'' # v)) \<Longrightarrow>
      holds (\<lambda>s. keeps v ts s \<and> version (report (mgr s)) = Some v) (commitAndTag e)
        (\<lambda>x. keeps v ts) (\<lambda>m. keeps v ts)"
  using assms unfolding holds_def
  by (auto simp: commitAndTag_def commitAndTag_p2_def sym_simps keeps_def str_def
        cong: sym_congs)

lemma holds_of_preserves: "preserves I a \<Longrightarrow> holds I a (\<lambda>x. I) (\<lambda>m. I)"
  by (simp add: holds_def wp_preserves)

lemma logs_keeps: "preserves (keeps v ts) (block (map (\<lambda>u. log (k u)) us))"
  by (rule preserves_block_all) (auto simp: keeps_steps)

lemma run_p2_tail_keeps:
  "preserves (keeps v ts)
     (bnd (gets f) (\<lambda>r.
        block [log (g r), log (h r),
               whenThen (c r) (block (log l # map (\<lambda>u. log (k u)) (us r)))]))"
  by (intro preserves_intros keeps_steps logs_keeps)

lemma run_tail_keeps:
  "preserves (keeps v ts) (bnd (gets f) (\<lambda>r. block [log (g r), log (h r)]))"
  by (intro preserves_intros keeps_steps)

lemma run_p2_keeps:
  assumes t: "CHR ''v'' # v \<in> set ts" and x: "fixedVersion e v = v"
  shows "holds (keeps v ts) (run_p2 e arg) (\<lambda>x. keeps v ts) (\<lambda>m. keeps v ts)"
  unfolding run_p2_def Let_def
  apply (rule holds_tryCatch [where M = "\<lambda>m. keeps v ts"])
   apply (rule holds_block_cons [where M = "\<lambda>s. keeps v ts s \<and> versionRegex v"])
    apply (rule preVerification_keeps [OF x])
   apply (rule holds_block_keep, rule preserves_conj_pure, rule keeps_steps)
    apply (rule holds_block_keep, rule preserves_conj_pure, rule keeps_steps)
     apply (rule holds_block_cons
              [where M = "\<lambda>s. keeps v ts s \<and> version (report (mgr s)) = Some v"])
      apply (rule versioning_keeps(1) [OF t])
     apply (rule holds_block_keep, rule keeps_version_steps)
      apply (rule holds_block_cons [where M = "keeps v ts"])
       apply (rule commitAndTag_keeps(1) [OF t])
      apply (rule holds_block_pres, (simp only: keeps_steps run_p2_tail_keeps; fail))+
      apply (rule holds_block_nil, assumption)
     apply simp
    apply simp
   apply simp
  apply (rule holds_of_preserves)
  apply (intro preserves_intros keeps_steps)
  done

lemma run_keeps:
  assumes t: "CHR ''v'' # v \<in> set ts" and f: "\<not> fails e (GitTagList (CHR ''v'' # v))"
    and x: "fixedVersion e v = v"
  shows "holds (keeps v ts) (run e arg) (\<lambda>x. keeps v ts) (\<lambda>m. keeps v ts)"
  unfolding run_def Let_def
  apply (rule holds_block_pres, rule keeps_steps)
  apply (rule holds_block_single)
  apply (rule holds_tryCatch [where M = "\<lambda>m. keeps v ts"])
   apply (rule holds_block_pres, rule keeps_steps)
   apply (rule holds_block_cons [where M = "\<lambda>s. keeps v ts s \<and> versionRegex v"])
    apply (rule preVerification_keeps [OF x])
   apply (rule holds_block_keep, rule preserves_conj_pure, rule keeps_steps)
    apply (rule holds_block_keep, rule preserves_conj_pure, rule keeps_steps)
     apply (rule holds_block_keep, rule preserves_conj_pure, rule keeps_steps)
      apply (rule holds_block_keep, rule preserves_conj_pure, rule keeps_steps)
       apply (rule holds_block_keep, rule preserves_conj_pure, rule keeps_steps)
        apply (rule holds_block_cons
                 [where M = "\<lambda>s. keeps v ts s \<and> version (report (mgr s)) = Some v"])
         apply (rule versioning_keeps(2) [OF t f])
        apply (rule holds_block_keep, rule keeps_version_steps)
         apply (rule holds_block_keep, rule keeps_version_steps)
          apply (rule holds_block_keep, rule keeps_version_steps)
           apply (rule holds_block_cons [where M = "keeps v ts"])
            apply (rule commitAndTag_keeps(2) [OF t f])
           apply (rule holds_block_pres, (simp only: keeps_steps run_tail_keeps; fail))+
           apply (rule holds_block_nil, assumption)
          apply simp
         apply simp
        apply simp
       apply simp
      apply simp
     apply simp
    apply simp
   apply simp
  apply (rule holds_of_preserves)
  apply (intro preserves_intros keeps_steps)
  done

text \<open>
  C5, as amended. When the tag \<^verbatim>\<open>v<version>\<close> of the manifest version exists and
  \<^verbatim>\<open>npm pkg fix\<close> leaves that version as it is (as it does with every version in
  canonical form X.Y.Z), a run leaves the manifest version as it is and creates no tag:
  the tags are the same at the end, however the run ends. This holds for
  src/unnamed/part_002, and for src/scripts/release.js when its tag query
  \<^verbatim>\<open>git tag -l\<close> does not itself fail. That no further commit is made does not hold
  and is left out.
\<close>

theorem rerun_keeps_version_and_tags:
  assumes "''v'' @ manifestVersion (wld s) \<in> set (tags (wld s))"
    and "fixedVersion e (manifestVersion (wld s)) = manifestVersion (wld s)"
  shows "manifestVersion (wld (stateOf (run_p2 e arg s))) = manifestVersion (wld s)
         \<and> tags (wld (stateOf (run_p2 e arg s))) = tags (wld s)
         \<and> (\<not> fails e (GitTagList (''v'' @ manifestVersion (wld s))) \<longrightarrow>
              manifestVersion (wld (stateOf (run e arg s))) = manifestVersion (wld s)
              \<and> tags (wld (stateOf (run e arg s))) = tags (wld s))"
proof -
  let ?v = "manifestVersion (wld s)" and ?ts = "tags (wld s)"
  from assms(1) have t: "CHR ''v'' # ?v \<in> set ?ts" by simp
  have k: "keeps ?v ?ts s" by (simp add: keeps_def)
  have "keeps ?v ?ts (stateOf (run_p2 e arg s))"
    using holds_result [OF run_p2_keeps [OF t assms(2)] k, of arg]
    by (cases "run_p2 e arg s") simp_all
  moreover have "keeps ?v ?ts (stateOf (run e arg s))"
    if "\<not> fails e (GitTagList (''v'' @ ?v))"
  proof -
    from that have f: "\<not> fails e (GitTagList (CHR ''v'' # ?v))" by simp
    show ?thesis
      using holds_result [OF run_keeps [OF t f assms(2)] k, of arg]
      by (cases "run e arg s") simp_all
  qed
  ultimately show ?thesis by (simp add: keeps_def)
qed

lemma exWorldReleased_tagged:
  "''v'' @ manifestVersion (wld (start exEnv exWorldReleased))
     \<in> set (tags (wld (start exEnv exWorldReleased)))"
  "\<not> fails exEnv (GitTagList (''v'' @ manifestVersion (wld (start exEnv exWorldReleased))))"
  by (simp_all add: start_def exWorldReleased_def exEnv_def)

lemma exWorldReleased_fixed:
  "fixedVersion exEnv (manifestVersion (wld (start exEnv exWorldReleased)))
     = manifestVersion (wld (start exEnv exWorldReleased))"
  by code_simp

theorem rerun_keeps_version_and_tags_witness:
  "''v'' @ manifestVersion (wld (start exEnv exWorldReleased))
     \<in> set (tags (wld (start exEnv exWorldReleased)))
   \<and> fixedVersion exEnv (manifestVersion (wld (start exEnv exWorldReleased)))
       = manifestVersion (wld (start exEnv exWorldReleased))
   \<and> manifestVersion (wld (stateOf (run_p2 exEnv None (start exEnv exWorldReleased))))
       = manifestVersion (wld (start exEnv exWorldReleased))
   \<and> tags (wld (stateOf (run_p2 exEnv None (start exEnv exWorldReleased))))
       = tags (wld (start exEnv exWorldReleased))
   \<and> \<not> fails exEnv (GitTagList (''v'' @ manifestVersion (wld (start exEnv exWorldReleased))))
   \<and> manifestVersion (wld (stateOf (run exEnv None (start exEnv exWorldReleased))))
       = manifestVersion (wld (start exEnv exWorldReleased))
   \<and> tags (wld (stateOf (run exEnv None (start exEnv exWorldReleased))))
       = tags (wld (start exEnv exWorldReleased))"
  using rerun_keeps_version_and_tags
      [OF exWorldReleased_tagged(1) exWorldReleased_fixed, of None]
    exWorldReleased_tagged exWorldReleased_fixed
  by blast

subsection \<open>The release kind\<close>

lemma preserves_exec:
  assumes "\<And>s. I s \<Longrightarrow> I (ran c s)" and "\<And>s. I s \<Longrightarrow> I (finished e c s)"
  shows "preserves I (execSync e c)"
  using assms by (simp add: preserves_def execSync_def Let_def ran_def finished_def)

lemma bumpArgs_append: "bumpArgs (t @ [c]) = bumpArgs t @ (case c of NpmVersion k \<Rightarrow> [k] | _ \<Rightarrow> [])"
  by (simp add: bumpArgs_def)

lemma bumpOnly_simps [simp]:
  "bumpOnly k (updManager f s) = bumpOnly k s"
  "bumpOnly k (updReport g s) = bumpOnly k s"
  "(\<And>w. trace (h w) = trace w) \<Longrightarrow> bumpOnly k (updWorld h s) = bumpOnly k s"
  "bumpOnly k (ran c s) = (bumpOnly k s \<and> (\<forall>x. c = NpmVersion x \<longrightarrow> x = k))"
  "bumpOnly k (finished e c s) = (bumpOnly k s \<and> (\<forall>x. c = NpmVersion x \<longrightarrow> x = k))"
  by (auto simp: bumpOnly_def upd_defs bumpArgs_append split: cmd.splits)

lemma viewLoop_bumpOnly: "preserves (bumpOnly k) (viewLoop e n)"
  by (induction n)
     (auto intro!: preserves_intros preserves_modify preserves_exec simp: action_defs)

lemma logs_bumpOnly: "preserves (bumpOnly k) (block (map (\<lambda>u. log (f u)) us))"
  by (rule preserves_block_all) (auto intro!: preserves_modify simp: log_def printLine_def)

lemma bumpOnly_steps:
  "preserves (bumpOnly k) (preVerification e)"
  "preserves (bumpOnly k) (dependenciesAndTests e)"
  "preserves (bumpOnly k) (build e)"
  "preserves (bumpOnly k) (versioning e (Some k))"
  "preserves (bumpOnly k) (updateChangelog e)"
  "preserves (bumpOnly k) (commitAndTag e)"
  "preserves (bumpOnly k) (push e)"
  "preserves (bumpOnly k) (publishToNpm e)"
  "preserves (bumpOnly k) (publishToGitHub e)"
  "preserves (bumpOnly k) (verification e)"
  "preserves (bumpOnly k) (printLine l)"
  "preserves (bumpOnly k) (log l)"
  "preserves (bumpOnly k) (error l)"
  "preserves (bumpOnly k) generateReport"
  "preserves (bumpOnly k) (preVerification_p2 e)"
  "preserves (bumpOnly k) (dependenciesAndTests_p2 e)"
  "preserves (bumpOnly k) (build_p2 e)"
  "preserves (bumpOnly k) (versioning_p2 e (Some k))"
  "preserves (bumpOnly k) (commitAndTag_p2 e)"
  "preserves (bumpOnly k) (push_p2 e)"
  "preserves (bumpOnly k) (publishToNpm_p2 e)"
  "preserves (bumpOnly k) (publishToGitHub_p2 e)"
  "preserves (bumpOnly k) (verification_p2 e)"
  unfolding step_defs step_p2_defs action_defs
  by (auto intro!: preserves_intros preserves_modify preserves_exec viewLoop_bumpOnly
        simp: orDefault_def split: option.splits)

lemma run_bumpOnly:
  "preserves (bumpOnly (orDefault arg ''patch'')) (run e arg)"
  "preserves (bumpOnly (orDefault arg ''patch'')) (run_p2 e arg)"
  unfolding run_def run_p2_def Let_def
  by (intro preserves_intros bumpOnly_steps logs_bumpOnly)+

lemma run_passes_kind_verbatim:
  assumes "bumpArgs (trace (wld s)) = []"
  shows "set (bumpArgs (trace (wld (stateOf (run e (Some k) s))))) \<subseteq> {k}"
    and "set (bumpArgs (trace (wld (stateOf (run_p2 e (Some k) s))))) \<subseteq> {k}"
proof -
  from assms have "bumpOnly k s" by (simp add: bumpOnly_def)
  with run_bumpOnly [of "Some k" e]
  show "set (bumpArgs (trace (wld (stateOf (run e (Some k) s))))) \<subseteq> {k}"
    and "set (bumpArgs (trace (wld (stateOf (run_p2 e (Some k) s))))) \<subseteq> {k}"
    by (simp_all add: preserves_def orDefault_def bumpOnly_def)
qed

subsection \<open>Steps that return\<close>

lemma holds_conj_pres:
  assumes h: "holds P a Q R" and p: "preserves I a"
  shows "holds (\<lambda>s. P s \<and> I s) a (\<lambda>x s. Q x s \<and> I s) (\<lambda>m s. R m s \<and> I s)"
  unfolding holds_def
proof (intro allI impI)
  fix s assume a: "P s \<and> I s"
  from a p have i: "I (stateOf (a s))" by (simp add: preserves_def)
  from a h have w: "wp a Q R s" by (simp add: holds_def)
  show "wp a (\<lambda>x s. Q x s \<and> I s) (\<lambda>m s. R m s \<and> I s) s"
    using i w by (cases "a s") (simp_all add: wp_def)
qed

lemma preVerification_ok:
  assumes "\<not> wrongBranch e" "\<not> fails e GitRevParseBranch" "\<not> fails e GitStatus"
    "\<not> fails e NpmPkgFix" "pkgFixVersion e v0 = Some v" "versionRegex v"
  shows "holds (\<lambda>s. \<not> treeChanged (wld s) \<and> keeps v0 ts s)
           (preVerification e) (\<lambda>x. keeps v ts) (\<lambda>m s. False)"
    and "holds (\<lambda>s. \<not> treeChanged (wld s) \<and> keeps v0 ts s)
           (preVerification_p2 e) (\<lambda>x. keeps v ts) (\<lambda>m s. False)"
  using assms unfolding holds_def
  by (auto simp: preVerification_def preVerification_p2_def sym_simps wrongBranch_def
        keeps_def fixedVersion_def
        cong: sym_congs)

lemma dependenciesAndTests_ok:
  assumes "\<not> fails e NpmCi"
  shows "holds (\<lambda>s. True) (dependenciesAndTests e)
           (\<lambda>x s. fails e NpmTest \<longrightarrow>
              ''Paquete sin tests configurados - continuando con advertencia''
                \<in> set (warnings (mgr s)))
           (\<lambda>m s. False)"
    and "holds (\<lambda>s. True) (dependenciesAndTests_p2 e)
           (\<lambda>x s. fails e NpmTest \<longrightarrow>
              ''Paquete sin tests configurados - continuando con advertencia''
                \<in> set (warnings (mgr s)))
           (\<lambda>m s. False)"
  using assms unfolding holds_def
  by (simp_all add: dependenciesAndTests_def dependenciesAndTests_p2_def sym_simps
        cong: sym_congs)

lemma build_ok:
  assumes "buildScript e \<longrightarrow> \<not> fails e NpmRunBuild"
  shows "holds (\<lambda>s. True) (build e)
           (\<lambda>x s. ''=== PASO 3: Build ==='' \<in> set (console (wld s))) (\<lambda>m s. False)"
    and "holds (\<lambda>s. True) (build_p2 e)
           (\<lambda>x s. ''=== PASO 3: Build ==='' \<in> set (console (wld s))) (\<lambda>m s. False)"
  using assms unfolding holds_def
  by (simp_all add: build_def build_p2_def sym_simps cong: sym_congs)






lemma progress_updWorld:
  assumes p: "progress cs ws ls s"
    and h: "\<And>w. trace (h w) = trace w \<and> set (console w) \<subseteq> set (console (h w))"
  shows "progress cs ws ls (updWorld h s)"
proof -
  from h [of "wld s"] have "trace (h (wld s)) = trace (wld s)"
    and "set (console (wld s)) \<subseteq> set (console (h (wld s)))" by simp_all
  with p show ?thesis by (auto simp: progress_def upd_defs)
qed

lemma progress_updManager:
  assumes p: "progress cs ws ls s"
    and f: "\<And>m. set (warnings m) \<subseteq> set (warnings (f m))"
  shows "progress cs ws ls (updManager f s)"
proof -
  from f [of "mgr s"] have "set (warnings (mgr s)) \<subseteq> set (warnings (f (mgr s)))" .
  with p show ?thesis by (auto simp: progress_def upd_defs)
qed

lemma progress_simps:
  "progress cs ws ls s \<Longrightarrow> progress cs ws ls (updReport g s)"
  "progress cs ws ls s \<Longrightarrow> progress cs ws ls (ran c s)"
  "progress cs ws ls s \<Longrightarrow> progress cs ws ls (finished e c s)"
  by (auto simp: progress_def upd_defs)

lemma viewLoop_progress: "preserves (progress cs ws ls) (viewLoop e n)"
  by (induction n)
     (auto intro!: preserves_intros preserves_modify preserves_exec progress_simps
          progress_updWorld progress_updManager
        simp: action_defs)

lemma logs_progress: "preserves (progress cs ws ls) (block (map (\<lambda>u. log (f u)) us))"
  by (rule preserves_block_all)
     (auto intro!: preserves_modify progress_updWorld simp: log_def printLine_def)

lemma progress_steps:
  "preserves (progress cs ws ls) (preVerification e)"
  "preserves (progress cs ws ls) (dependenciesAndTests e)"
  "preserves (progress cs ws ls) (build e)"
  "preserves (progress cs ws ls) (versioning e arg)"
  "preserves (progress cs ws ls) (updateChangelog e)"
  "preserves (progress cs ws ls) (commitAndTag e)"
  "preserves (progress cs ws ls) (push e)"
  "preserves (progress cs ws ls) (publishToNpm e)"
  "preserves (progress cs ws ls) (publishToGitHub e)"
  "preserves (progress cs ws ls) (verification e)"
  "preserves (progress cs ws ls) (printLine l)"
  "preserves (progress cs ws ls) (log l)"
  "preserves (progress cs ws ls) (error l)"
  "preserves (progress cs ws ls) generateReport"
  "preserves (progress cs ws ls) (preVerification_p2 e)"
  "preserves (progress cs ws ls) (dependenciesAndTests_p2 e)"
  "preserves (progress cs ws ls) (build_p2 e)"
  "preserves (progress cs ws ls) (versioning_p2 e arg)"
  "preserves (progress cs ws ls) (commitAndTag_p2 e)"
  "preserves (progress cs ws ls) (push_p2 e)"
  "preserves (progress cs ws ls) (publishToNpm_p2 e)"
  "preserves (progress cs ws ls) (publishToGitHub_p2 e)"
  "preserves (progress cs ws ls) (verification_p2 e)"
  unfolding step_defs step_p2_defs action_defs
  by (auto intro!: preserves_intros preserves_modify preserves_exec viewLoop_progress
        progress_simps progress_updWorld progress_updManager split: option.splits)

subsection \<open>A failing test command\<close>

lemma logged_keeps [simp]: "keeps v ts (logged l s) = keeps v ts s"
  by (simp add: keeps_def)

lemma logged_progress: "progress cs ws ls s \<Longrightarrow> progress cs ws ls (logged l s)"
  by (auto simp: progress_def)

lemma progress_weaken:
  "progress cs ws ls s \<Longrightarrow> set cs' \<subseteq> set cs \<Longrightarrow> set ws' \<subseteq> set ws \<Longrightarrow> set ls' \<subseteq> set ls
   \<Longrightarrow> progress cs' ws' ls' s"
  by (auto simp: progress_def)

lemma progress_Nil [simp]: "progress [] [] [] s"
  by (simp add: progress_def)

lemma progress_add:
  "progress cs ws ls s \<Longrightarrow> c \<in> set (trace (wld s)) \<Longrightarrow> progress (c # cs) ws ls s"
  "progress cs ws ls s \<Longrightarrow> w \<in> set (warnings (mgr s)) \<Longrightarrow> progress cs (w # ws) ls s"
  "progress cs ws ls s \<Longrightarrow> l \<in> set (console (wld s)) \<Longrightarrow> progress cs ws (l # ls) s"
  by (auto simp: progress_def)











lemma logged_progressReported:
  "progressReported cs ws ls s \<Longrightarrow> progressReported cs ws ls (logged l s)"
  by (simp add: progressReported_def logged_progress)

lemma holds_block_printLine:
  assumes "\<And>s l. P s \<Longrightarrow> P (logged l s)" and "holds P (block as) Q R"
  shows "holds P (block (printLine l # as)) Q R"
  by (rule holds_block_cons [OF holds_printLine_keeps]) (fact assms)+


lemma orDefault_Some [simp]: "orDefault (Some x) d = x"
  by (simp add: orDefault_def)









subsection \<open>Reaching the version bump\<close>

lemma first_steps:
  assumes "\<not> wrongBranch e" "\<not> fails e GitRevParseBranch" "\<not> fails e GitStatus"
    "\<not> fails e NpmPkgFix" "pkgFixVersion e v0 = Some v" "versionRegex v" "\<not> fails e NpmCi"
    "buildScript e \<longrightarrow> \<not> fails e NpmRunBuild"
  shows "holds (\<lambda>s. \<not> treeChanged (wld s) \<and> keeps v0 ts s) (preVerification e)
           (\<lambda>x. keeps v ts) (\<lambda>m. R)"
    and "holds (\<lambda>s. \<not> treeChanged (wld s) \<and> keeps v0 ts s) (preVerification_p2 e)
           (\<lambda>x. keeps v ts) (\<lambda>m. R)"
    and "holds (keeps v ts) (dependenciesAndTests e) (\<lambda>x. keeps v ts) (\<lambda>m. R)"
    and "holds (keeps v ts) (dependenciesAndTests_p2 e) (\<lambda>x. keeps v ts) (\<lambda>m. R)"
    and "holds (keeps v ts) (build e) (\<lambda>x. keeps v ts) (\<lambda>m. R)"
    and "holds (keeps v ts) (build_p2 e) (\<lambda>x. keeps v ts) (\<lambda>m. R)"
       apply (rule holds_weaken [OF preVerification_ok(1) [of e v0 v ts]],
        simp_all add: assms)[1]
      apply (rule holds_weaken [OF preVerification_ok(2) [of e v0 v ts]],
        simp_all add: assms)[1]
     apply (rule holds_weaken
        [OF holds_conj_pres [OF dependenciesAndTests_ok(1) keeps_steps(1) [of v ts]]],
        simp_all add: assms)[1]
    apply (rule holds_weaken
        [OF holds_conj_pres [OF dependenciesAndTests_ok(2) keeps_steps(12) [of v ts]]],
        simp_all add: assms)[1]
   apply (rule holds_weaken
        [OF holds_conj_pres [OF build_ok(1) keeps_steps(2) [of v ts]]],
        simp_all add: assms)[1]
  apply (rule holds_weaken
        [OF holds_conj_pres [OF build_ok(2) keeps_steps(13) [of v ts]]],
        simp_all add: assms)
  done

lemma versioning_banner:
  "holds (\<lambda>s. True) (versioning e arg)
     (\<lambda>x. progress [] [] [''=== PASO 4: Versionado ==='']) 
     (\<lambda>m. progress [] [] [''=== PASO 4: Versionado ==='']) "
  unfolding holds_def
  by (auto simp: versioning_def sym_simps progress_def cong: sym_congs)

lemma versioning_p2_bumps:
  assumes "versionRegex v" "\<not> fails e NpmPkgGetVersion" "\<not> fails e (GitTagList (CHR ''v'' # v))"
  shows "holds (keeps v ts) (versioning_p2 e (Some k))
     (\<lambda>x. progress (if CHR ''v'' # v \<in> set ts then [] else [NpmVersion k]) []
             [''=== PASO 4: Versionado ==='']) 
     (\<lambda>m. progress (if CHR ''v'' # v \<in> set ts then [] else [NpmVersion k]) []
             [''=== PASO 4: Versionado ==='']) "
  using assms unfolding holds_def
  by (auto simp: versioning_p2_def sym_simps stdout_version progress_def keeps_def
        cong: sym_congs)

lemma progress_tail:
  "preserves (progress cs ws ls)
     (bnd (gets f) (\<lambda>r. block [log (g r), log (h r)]))"
  "preserves (progress cs ws ls)
     (bnd (gets f) (\<lambda>r.
        block [log (g r), log (h r),
               whenThen (c r) (block (log l # map (\<lambda>u. log (k u)) (us r)))]))"
  by (intro preserves_intros progress_steps logs_progress)+

lemma run_reaches_versioning:
  assumes "\<not> wrongBranch e" "\<not> fails e GitRevParseBranch" "\<not> fails e GitStatus"
    "\<not> fails e NpmPkgFix" "pkgFixVersion e v0 = Some v" "versionRegex v" "\<not> fails e NpmCi"
    "buildScript e \<longrightarrow> \<not> fails e NpmRunBuild"
  shows "holds (\<lambda>s. \<not> treeChanged (wld s) \<and> keeps v0 ts s) (run e (Some k))
           (\<lambda>x. progress [] [] [''=== PASO 4: Versionado ==='']) 
           (\<lambda>m. progress [] [] [''=== PASO 4: Versionado ==='']) "
  unfolding run_def Let_def
  apply (rule holds_block_printLine, simp)
  apply (rule holds_block_single)
  apply (rule holds_tryCatch
           [where M = "\<lambda>m. progress [] [] [''=== PASO 4: Versionado ===''] "])
   apply (rule holds_block_printLine, simp)
   apply (rule holds_block_cons [OF first_steps(1) [OF assms]])
   apply (rule holds_block_printLine, simp)
   apply (rule holds_block_cons [OF first_steps(3) [OF assms]])
   apply (rule holds_block_printLine, simp)
   apply (rule holds_block_cons [OF first_steps(5) [OF assms]])
   apply (rule holds_block_printLine, simp)
   apply (rule holds_block_cons [OF holds_weaken [OF versioning_banner]])
      apply simp
     apply assumption
    apply assumption
   apply (rule holds_block_pres, (simp only: progress_steps progress_tail; fail))+
   apply (rule holds_block_nil, assumption)
  apply (rule holds_of_preserves)
  apply (intro preserves_intros progress_steps)
  done

lemma run_p2_reaches_bump:
  assumes "\<not> wrongBranch e" "\<not> fails e GitRevParseBranch" "\<not> fails e GitStatus"
    "\<not> fails e NpmPkgFix" "pkgFixVersion e v0 = Some v" "versionRegex v" "\<not> fails e NpmCi"
    "buildScript e \<longrightarrow> \<not> fails e NpmRunBuild"
    and g: "\<not> fails e NpmPkgGetVersion" "\<not> fails e (GitTagList (CHR ''v'' # v))"
  shows "holds (\<lambda>s. \<not> treeChanged (wld s) \<and> keeps v0 ts s) (run_p2 e (Some k))
           (\<lambda>x. progress (if CHR ''v'' # v \<in> set ts then [] else [NpmVersion k]) []
                   [''=== PASO 4: Versionado ==='']) 
           (\<lambda>m. progress (if CHR ''v'' # v \<in> set ts then [] else [NpmVersion k]) []
                   [''=== PASO 4: Versionado ==='']) "
  unfolding run_p2_def Let_def orDefault_Some
  apply (rule holds_tryCatch
           [where M = "\<lambda>m. progress (if CHR ''v'' # v \<in> set ts then [] else [NpmVersion k]) []
                   [''=== PASO 4: Versionado ===''] "])
   apply (rule holds_block_cons [OF first_steps(2) [OF assms(1-8)]])
   apply (rule holds_block_cons [OF first_steps(4) [OF assms(1-8)]])
   apply (rule holds_block_cons [OF first_steps(6) [OF assms(1-8)]])
   apply (rule holds_block_cons [OF versioning_p2_bumps [OF assms(6) g]])
   apply (rule holds_block_pres, (simp only: progress_steps progress_tail; fail))+
   apply (rule holds_block_nil, assumption)
  apply (rule holds_of_preserves)
  apply (intro preserves_intros progress_steps)
  done

lemma run_default_kind:
  "run e None = run e (Some ''patch'')" "run_p2 e None = run_p2 e (Some ''patch'')"
  by (simp_all add: run_def run_p2_def orDefault_def)

text \<open>
  C10, as amended. The release kind is never checked. When the first three steps pass,
  a run with any string \<open>k\<close> as release kind enters the versioning step, in both files,
  and every version-bump command it runs has \<open>k\<close> itself as its argument. In
  src/unnamed/part_002 that command is run whenever the tag of the version in the
  manifest (as \<^verbatim>\<open>npm pkg fix\<close> leaves it) does not exist yet. \<^verbatim>\<open>run\<close> called
  without an argument is \<^verbatim>\<open>run\<close> called with \<^verbatim>\<open>patch\<close>; at the entry point a
  third command-line argument is the release kind unless it is the empty string, and
  \<^verbatim>\<open>patch\<close> is used when it is empty or missing.
\<close>

theorem release_kind_is_passed_unchecked:
  assumes "firstStepsPass e w" and "console w = []" and "trace w = []"
  shows "''=== PASO 4: Versionado ===''
           \<in> set (console (wld (stateOf (run e (Some k) (start e w)))))
         \<and> set (bumpArgs (trace (wld (stateOf (run e (Some k) (start e w)))))) \<subseteq> {k}
         \<and> ''=== PASO 4: Versionado ===''
             \<in> set (console (wld (stateOf (run_p2 e (Some k) (start e w)))))
         \<and> set (bumpArgs (trace (wld (stateOf (run_p2 e (Some k) (start e w)))))) \<subseteq> {k}
         \<and> (''v'' @ fixedVersion e (manifestVersion w) \<notin> set (tags w) \<longrightarrow>
              NpmVersion k \<in> set (trace (wld (stateOf (run_p2 e (Some k) (start e w))))))
         \<and> run e None = run e (Some ''patch'') \<and> run_p2 e None = run_p2 e (Some ''patch'')
         \<and> (k \<noteq> [] \<longrightarrow> argReleaseType (a # b # k # rest) = k)
         \<and> argReleaseType (a # b # [] # rest) = ''patch''
         \<and> argReleaseType [a, b] = ''patch''"
proof -
  let ?v = "fixedVersion e (manifestVersion w)" and ?ts = "tags w"
  from assms(1) obtain u where u: "pkgFixVersion e (manifestVersion w) = Some u"
    by (auto simp: firstStepsPass_def)
  then have x: "pkgFixVersion e (manifestVersion w) = Some ?v"
    by (simp add: fixedVersion_def)
  from assms(1) have f: "\<not> wrongBranch e" "\<not> fails e GitRevParseBranch" "\<not> fails e GitStatus"
    "\<not> fails e NpmPkgFix" and f': "versionRegex ?v" "\<not> fails e NpmCi"
    "buildScript e \<longrightarrow> \<not> fails e NpmRunBuild"
    and g: "\<not> fails e NpmPkgGetVersion" "\<not> fails e (GitTagList (CHR ''v'' # ?v))"
    and c: "\<not> treeChanged w"
    by (simp_all add: firstStepsPass_def)
  have s: "\<not> treeChanged (wld (start e w)) \<and> keeps (manifestVersion w) ?ts (start e w)"
    using c by (simp add: start_def keeps_def)
  have t: "bumpArgs (trace (wld (start e w))) = []"
    using assms(3) by (simp add: start_def bumpArgs_def)
  have "progress [] [] [''=== PASO 4: Versionado ===''] (stateOf (run e (Some k) (start e w)))"
    using holds_result [OF run_reaches_versioning [OF f x f'] s, of k]
    by (cases "run e (Some k) (start e w)") simp_all
  then have 1: "''=== PASO 4: Versionado ===''
      \<in> set (console (wld (stateOf (run e (Some k) (start e w)))))"
    by (simp add: progress_def)
  have "progress (if CHR ''v'' # ?v \<in> set ?ts then [] else [NpmVersion k]) []
          [''=== PASO 4: Versionado ===''] (stateOf (run_p2 e (Some k) (start e w)))"
    using holds_result [OF run_p2_reaches_bump [OF f x f' g] s, of k]
    by (cases "run_p2 e (Some k) (start e w)") simp_all
  then have 2: "''=== PASO 4: Versionado ===''
      \<in> set (console (wld (stateOf (run_p2 e (Some k) (start e w)))))"
    and 3: "''v'' @ ?v \<notin> set ?ts \<longrightarrow>
      NpmVersion k \<in> set (trace (wld (stateOf (run_p2 e (Some k) (start e w)))))"
    by (auto simp: progress_def split: if_splits)
  have 4: "(k \<noteq> [] \<longrightarrow> argReleaseType (a # b # k # rest) = k)"
    "argReleaseType (a # b # [] # rest) = ''patch''" "argReleaseType [a, b] = ''patch''"
    by (simp_all add: argReleaseType_def)
  from 1 2 3 4 run_passes_kind_verbatim [OF t] run_default_kind [of e]
  show ?thesis by blast
qed

lemma exEnv_firstStepsPass: "firstStepsPass exEnv exWorld"
  by code_simp

lemma exWorld_fresh:
  "console exWorld = []" "trace exWorld = []"
  "''v'' @ fixedVersion exEnv (manifestVersion exWorld) \<notin> set (tags exWorld)"
  by code_simp+

theorem release_kind_is_passed_unchecked_witness:
  "firstStepsPass exEnv exWorld \<and> console exWorld = [] \<and> trace exWorld = []
   \<and> ''=== PASO 4: Versionado ===''
       \<in> set (console (wld (stateOf (run exEnv (Some ''banana'') (start exEnv exWorld)))))
   \<and> set (bumpArgs (trace (wld (stateOf (run exEnv (Some ''banana'') (start exEnv exWorld))))))
       \<subseteq> {''banana''}
   \<and> ''v'' @ fixedVersion exEnv (manifestVersion exWorld) \<notin> set (tags exWorld)
   \<and> NpmVersion ''banana''
       \<in> set (trace (wld (stateOf (run_p2 exEnv (Some ''banana'') (start exEnv exWorld)))))
   \<and> set (bumpArgs (trace (wld (stateOf (run_p2 exEnv (Some ''banana'') (start exEnv exWorld))))))
       \<subseteq> {''banana''}
   \<and> argReleaseType [''node'', ''release.js'', ''banana''] = ''banana''"
proof -
  have "''banana'' \<noteq> []" by simp
  with release_kind_is_passed_unchecked
      [OF exEnv_firstStepsPass exWorld_fresh(1,2), of "''banana''" "''node''" "''release.js''" "[]"]
    exEnv_firstStepsPass exWorld_fresh
  show ?thesis by blast
qed
text \<open>
  C1 fails on src/scripts/release.js. On a branch that is neither master nor main the
  run throws in the first step, one report is written, and its status is
  \<^verbatim>\<open>completed\<close>, not \<^verbatim>\<open>failed\<close>.
\<close>

theorem release_js_failed_run_reports_completed:
  "isThrown (run exEnvWrongBranch None (start exEnvWrongBranch exWorld))
   \<and> reportFile (wld (stateOf (run exEnvWrongBranch None (start exEnvWrongBranch exWorld))))
       = [reportContent (report (mgr (stateOf
            (run exEnvWrongBranch None (start exEnvWrongBranch exWorld)))))]
   \<and> status (report (mgr (stateOf (run exEnvWrongBranch None (start exEnvWrongBranch exWorld)))))
       = ''completed''
   \<and> status (report (mgr (stateOf (run_p2 exEnvWrongBranch None (start exEnvWrongBranch exWorld)))))
       = ''failed''"
  by code_simp


subsection \<open>The scenarios\<close>

text \<open>
  C2 fails on src/scripts/release.js. With version 1.0.0, no tag and release kind
  patch, \<^verbatim>\<open>git tag -l v1.0.0\<close> succeeds with an empty listing, so the \<^verbatim>\<open>try\<close>
  branch of \<^verbatim>\<open>versioning\<close> keeps 1.0.0 and the one of \<^verbatim>\<open>commitAndTag\<close> creates
  no tag; the changelog section is headed 1.0.0.
\<close>

theorem release_js_patch_scenario_no_bump_no_tag:
  "manifestVersion (wld (stateOf (run exEnv (Some ''patch'') (start exEnv exWorld)))) = ''1.0.0''
   \<and> version (report (mgr (stateOf (run exEnv (Some ''patch'') (start exEnv exWorld)))))
       = Some ''1.0.0''
   \<and> tags (wld (stateOf (run exEnv (Some ''patch'') (start exEnv exWorld)))) = []
   \<and> commits (wld (stateOf (run exEnv (Some ''patch'') (start exEnv exWorld))))
       = [''chore(release): v1.0.0'']
   \<and> changelogFile (wld (stateOf (run exEnv (Some ''patch'') (start exEnv exWorld))))
       = Some (''# Changelog'' @ [nl, nl] @ ''## [1.0.0] - 2025-09-18'' @ [nl, nl]
               @ ''### Changed'' @ [nl] @ ''- Release automatico'' @ [nl, nl]
               @ ''## [1.0.0] - 2025-09-01'' @ [nl])"
  by code_simp

text \<open>src/unnamed/part_002 does on the same input what C2 says.\<close>

lemma part_002_patch_scenario:
  "manifestVersion (wld (stateOf (run_p2 exEnv (Some ''patch'') (start exEnv exWorld)))) = ''1.0.1''
   \<and> version (report (mgr (stateOf (run_p2 exEnv (Some ''patch'') (start exEnv exWorld)))))
       = Some ''1.0.1''
   \<and> tags (wld (stateOf (run_p2 exEnv (Some ''patch'') (start exEnv exWorld)))) = [''v1.0.1'']
   \<and> GitTagAnnotated ''v1.0.1'' ''Release v1.0.1''
       \<in> set (trace (wld (stateOf (run_p2 exEnv (Some ''patch'') (start exEnv exWorld)))))
   \<and> changelogFile (wld (stateOf (run_p2 exEnv (Some ''patch'') (start exEnv exWorld))))
       = Some (''# Changelog'' @ [nl, nl] @ ''## [1.0.1] - 2025-09-18'' @ [nl, nl]
               @ ''### Changed'' @ [nl] @ ''- Release automatico'' @ [nl, nl]
               @ ''## [1.0.0] - 2025-09-01'' @ [nl])
   \<and> \<not> isThrown (run_p2 exEnv (Some ''patch'') (start exEnv exWorld))"
  by code_simp

text \<open>
  C6 fails on src/scripts/release.js. When \<^verbatim>\<open>git push --tags\<close> fails, \<^verbatim>\<open>push\<close>
  catches the error and logs a line; the run goes on and publishes.
  src/unnamed/part_002 throws in \<^verbatim>\<open>push\<close> and publishes nothing.
\<close>

theorem release_js_tags_push_failure_still_publishes:
  "GitPushTags \<in> set (trace (wld (stateOf
       (run exEnvTagsPushFails None (start exEnvTagsPushFails exWorld)))))
   \<and> NpmPublish \<in> set (trace (wld (stateOf
       (run exEnvTagsPushFails None (start exEnvTagsPushFails exWorld)))))
   \<and> isThrown (run_p2 exEnvTagsPushFails None (start exEnvTagsPushFails exWorld))
   \<and> NpmPublish \<notin> set (trace (wld (stateOf
       (run_p2 exEnvTagsPushFails None (start exEnvTagsPushFails exWorld)))))"
  by code_simp

text \<open>
  C9 fails in both files. When \<^verbatim>\<open>npm test\<close> fails, \<^verbatim>\<open>dependenciesAndTests\<close>
  appends the issue \<^verbatim>\<open>Tests no configurados\<close>; \<^verbatim>\<open>generateReport\<close> then assigns
  \<^verbatim>\<open>[...this.errors, ...this.warnings]\<close> to the issues, and the appended issue is
  gone from the report, while its solution stays.
\<close>

theorem report_drops_issues_recorded_by_steps:
  "''Tests no configurados'' \<notin> set (issues (report (mgr (stateOf
       (run exEnvTestFails None (start exEnvTestFails exWorld))))))
   \<and> ''Tests no configurados'' \<notin> set (issues (report (mgr (stateOf
       (run_p2 exEnvTestFails None (start exEnvTestFails exWorld))))))
   \<and> ''Se recomienda agregar tests antes del proximo release'' \<in> set (solutions (report (mgr
       (stateOf (run_p2 exEnvTestFails None (start exEnvTestFails exWorld))))))
   \<and> issues (report (mgr (stateOf (run_p2 exEnvTestFails None (start exEnvTestFails exWorld)))))
       = [''Paquete sin tests configurados - continuando con advertencia'',
          ''No se encontraron tags anteriores'',
          ''No se encontraron cambios desde el ultimo tag'',
          ''Paquete sin scope - omitiendo GitHub Packages segun instrucciones'']"
  by code_simp


text \<open>
  C5 as stated fails in both files: a run on a repository whose version is already
  tagged writes a new changelog section, so the tree has changes and
  \<^verbatim>\<open>commitAndTag\<close> commits a second time with the same message.
\<close>

theorem rerun_commits_again_counterexample:
  "''v1.0.1'' \<in> set (tags exWorldReleased)
   \<and> commits exWorldReleased = [''chore(release): v1.0.1'']
   \<and> commits (wld (stateOf (run_p2 exEnv None (start exEnv exWorldReleased))))
       = [''chore(release): v1.0.1'', ''chore(release): v1.0.1'']
   \<and> commits (wld (stateOf (run exEnv None (start exEnv exWorldReleased))))
       = [''chore(release): v1.0.1'', ''chore(release): v1.0.1'']"
  by code_simp

text \<open>
  C10 fails as stated. At the entry point an empty third argument also gives
  \<^verbatim>\<open>patch\<close>, which src/unnamed/part_002 then passes to \<^verbatim>\<open>npm version\<close>; and
  src/scripts/release.js, where the tag query succeeds, runs no version-bump command at
  all, whatever the release kind.
\<close>

theorem empty_argument_yields_patch_counterexample:
  "argReleaseType [''node'', ''release.js'', []] = ''patch''
   \<and> bumpArgs (trace (wld (snd (main_p2 exEnv [''node'', ''release.js'', []] exWorld))))
       = [''patch'']
   \<and> bumpArgs (trace (wld (stateOf (run exEnv (Some ''banana'') (start exEnv exWorld))))) = []"
  by code_simp

end
